theory Spec2Isabelle
  imports Complex_Main "HOL-Library.Word" "HOL-Library.Monad_Syntax"
begin

unbundle bit_operations_syntax

section \<open>Data model of openctm.c\<close>

text \<open>
  The API functions of \<^verbatim>\<open>openctm.c\<close> work on a \<^verbatim>\<open>_CTMcontext\<close> structure reached through an
  opaque handle. C names that start with an underscore are written with the prefix \<open>u_\<close>.
  The structure itself is declared in \<^verbatim>\<open>internal.h\<close>; its fields are the ones \<^verbatim>\<open>openctm.c\<close> uses.

  \<^item> \<^verbatim>\<open>CTMuint\<close> is an unsigned 32-bit integer; property identifiers are values of a C enumeration
    without negative members and are compared with \<^verbatim>\<open>CTMuint\<close> values, so they are 32-bit words too.
  \<^item> \<^verbatim>\<open>CTMfloat\<close> values are carried as real numbers: the arithmetic of
    \<^verbatim>\<open>ctmVertexPrecisionRel\<close> is therefore exact here, without the rounding of the C code.
  \<^item> A pointer to an array is \<open>None\<close> when null and \<open>Some\<close> of the array's contents otherwise.
  \<^item> The chain of \<^verbatim>\<open>_CTMfloatmap\<close> nodes linked by \<^verbatim>\<open>mNext\<close> is a list; the null pointer is \<open>[]\<close>.
  \<^item> A C string is the list of its bytes before the terminating zero.
  \<^item> Callback pointers and the user-data pointer are opaque tokens.
  \<^item> The mode and the error code are enumerations with the constants \<^verbatim>\<open>openctm.c\<close> names; a
    mode that is neither of the two constants is not modelled.
\<close>

type_synonym CTMuint = "32 word"
type_synonym CTMfloat = real
type_synonym byte = "8 word"
type_synonym CTMproperty = "32 word"
type_synonym CTMreadfn = nat
type_synonym CTMwritefn = nat

datatype CTMcontextmode = CTM_IMPORT | CTM_EXPORT

datatype CTMerror =
    CTM_NO_ERROR
  | CTM_INVALID_CONTEXT
  | CTM_INVALID_ARGUMENT
  | CTM_INVALID_OPERATION
  | CTM_INVALID_MESH
  | CTM_OUT_OF_MEMORY
  | CTM_FILE_ERROR
  | CTM_FORMAT_ERROR

text \<open>
  \<open>CTM_METHOD_UNKNOWN\<close> stands for every value of the C type \<^verbatim>\<open>CTMmethod\<close> that is none of the
  three method constants; \<^verbatim>\<open>ctmCompressionMethod\<close> tests for it.
\<close>

datatype CTMmethod = CTM_METHOD_RAW | CTM_METHOD_MG1 | CTM_METHOD_MG2 | CTM_METHOD_UNKNOWN

text \<open>
  The values of the property identifiers and of the format version are set in \<^verbatim>\<open>openctm.h\<close> and
  \<^verbatim>\<open>internal.h\<close>, which are not part of the source at hand: every function that uses one takes
  them in a record of this type.
\<close>

record openctm_h =
  CTM_NONE :: CTMproperty
  CTM_VERTEX_COUNT :: CTMproperty
  CTM_TRIANGLE_COUNT :: CTMproperty
  CTM_TEX_MAP_COUNT :: CTMproperty
  CTM_ATTRIB_MAP_COUNT :: CTMproperty
  CTM_HAS_NORMALS :: CTMproperty
  CTM_INDICES :: CTMproperty
  CTM_VERTICES :: CTMproperty
  CTM_NORMALS :: CTMproperty
  CTM_FILE_COMMENT :: CTMproperty
  CTM_TEX_MAP_1 :: CTMproperty
  CTM_ATTRIB_MAP_1 :: CTMproperty
  CTM_TRUE :: CTMuint
  CTM_FALSE :: CTMuint
  u_CTM_FORMAT_VERSION :: CTMuint

record u_CTMfloatmap =
  mName :: "byte list option"
  mValues :: "CTMfloat list option"

record u_CTMcontext =
  mMode :: CTMcontextmode
  mError :: CTMerror
  mMethod :: CTMmethod
  mVertexPrecision :: CTMfloat
  mVertices :: "CTMfloat list option"
  mVertexCount :: CTMuint
  mIndices :: "CTMuint list option"
  mTriangleCount :: CTMuint
  mNormals :: "CTMfloat list option"
  mTexMaps :: "u_CTMfloatmap list"
  mTexMapCount :: CTMuint
  mAttribMaps :: "u_CTMfloatmap list"
  mAttribMapCount :: CTMuint
  mFileComment :: "byte list option"
  mReadFn :: "CTMreadfn option"
  mWriteFn :: "CTMwritefn option"
  mUserData :: "nat option"

text \<open>The handle \<^verbatim>\<open>CTMcontext\<close>: \<open>None\<close> is the null handle.\<close>

type_synonym CTMcontext = "u_CTMcontext option"

section \<open>Clearing the mesh\<close>

text \<open>
  \<^verbatim>\<open>_ctmFreeMapList\<close>: the loop \<^verbatim>\<open>while(map)\<close> reads \<^verbatim>\<open>nextMap = map->mNext\<close> and frees the node,
  but never assigns \<^verbatim>\<open>nextMap\<close> to \<^verbatim>\<open>map\<close>: on a list that is not empty the loop is entered again
  with the same \<^verbatim>\<open>map\<close> (written \<open>m\<close> below), and the function does not return. \<open>None\<close> is
  that outcome.
\<close>

partial_function (option) u_ctmFreeMapList :: "u_CTMcontext \<Rightarrow> u_CTMfloatmap list \<Rightarrow> unit option" where
  "u_ctmFreeMapList self aMapList =
     (case aMapList of
        [] \<Rightarrow> Some ()
      | m # nextMap \<Rightarrow> u_ctmFreeMapList self (m # nextMap))"

text \<open>
  \<^verbatim>\<open>_ctmClearMesh\<close>: the calls of \<^verbatim>\<open>free\<close> leave no trace in this model, the assignments do.
\<close>

definition u_ctmClearMesh :: "u_CTMcontext \<Rightarrow> u_CTMcontext option" where
  "u_ctmClearMesh self =
     (let self1 = self\<lparr>mVertices := None, mVertexCount := 0, mIndices := None,
                       mTriangleCount := 0, mNormals := None\<rparr>
      in do {
        _ \<leftarrow> u_ctmFreeMapList self1 (mTexMaps self1);
        let self2 = self1\<lparr>mTexMaps := [], mTexMapCount := 0\<rparr>;
        _ \<leftarrow> u_ctmFreeMapList self2 (mAttribMaps self2);
        Some (self2\<lparr>mAttribMaps := [], mAttribMapCount := 0\<rparr>)
      })"

section \<open>Creating and destroying a context, the error register\<close>

text \<open>
  \<^verbatim>\<open>ctmNewContext\<close>, with the allocation of the structure taken to succeed (the C code writes
  through the pointer without a test).
\<close>

definition ctmNewContext :: "CTMcontextmode \<Rightarrow> CTMcontext" where
  "ctmNewContext aMode =
     Some \<lparr>mMode = aMode, mError = CTM_NO_ERROR, mMethod = CTM_METHOD_MG1,
           mVertexPrecision = 1 / 1024,
           mVertices = None, mVertexCount = 0, mIndices = None, mTriangleCount = 0,
           mNormals = None, mTexMaps = [], mTexMapCount = 0,
           mAttribMaps = [], mAttribMapCount = 0, mFileComment = None,
           mReadFn = None, mWriteFn = None, mUserData = None\<rparr>"

text \<open>\<^verbatim>\<open>ctmFreeContext\<close>: \<open>Some ()\<close> when the call returns.\<close>

definition ctmFreeContext :: "CTMcontext \<Rightarrow> unit option" where
  "ctmFreeContext aContext =
     (case aContext of
        None \<Rightarrow> Some ()
      | Some self \<Rightarrow> do { _ \<leftarrow> u_ctmClearMesh self; Some () })"

definition ctmError :: "CTMcontext \<Rightarrow> CTMerror \<times> CTMcontext" where
  "ctmError aContext =
     (case aContext of
        None \<Rightarrow> (CTM_INVALID_CONTEXT, None)
      | Some self \<Rightarrow> (mError self, Some (self\<lparr>mError := CTM_NO_ERROR\<rparr>)))"

section \<open>Property queries\<close>

definition ctmGetInteger :: "openctm_h \<Rightarrow> CTMcontext \<Rightarrow> CTMproperty \<Rightarrow> CTMuint \<times> CTMcontext" where
  "ctmGetInteger h aContext aProperty =
     (case aContext of
        None \<Rightarrow> (0, None)
      | Some self \<Rightarrow>
          if aProperty = CTM_VERTEX_COUNT h then (mVertexCount self, Some self)
          else if aProperty = CTM_TRIANGLE_COUNT h then (mTriangleCount self, Some self)
          else if aProperty = CTM_TEX_MAP_COUNT h then (mTexMapCount self, Some self)
          else if aProperty = CTM_ATTRIB_MAP_COUNT h then (mAttribMapCount self, Some self)
          else if aProperty = CTM_HAS_NORMALS h then
            ((if mNormals self \<noteq> None then CTM_TRUE h else CTM_FALSE h), Some self)
          else (0, Some (self\<lparr>mError := CTM_INVALID_ARGUMENT\<rparr>)))"

definition ctmGetIntegerArray ::
  "openctm_h \<Rightarrow> CTMcontext \<Rightarrow> CTMproperty \<Rightarrow> CTMuint list option \<times> CTMcontext" where
  "ctmGetIntegerArray h aContext aProperty =
     (case aContext of
        None \<Rightarrow> (None, None)
      | Some self \<Rightarrow>
          if aProperty = CTM_INDICES h then (mIndices self, Some self)
          else (None, Some (self\<lparr>mError := CTM_INVALID_ARGUMENT\<rparr>)))"

text \<open>
  The list walk of \<^verbatim>\<open>ctmGetFloatArray\<close>:
  \<^verbatim>\<open>while(map && (i != aProperty)) { map = map->mNext; ++ i; }\<close>, returning the final \<^verbatim>\<open>map\<close>.
\<close>

fun map_walk :: "u_CTMfloatmap list \<Rightarrow> CTMuint \<Rightarrow> CTMproperty \<Rightarrow> u_CTMfloatmap list" where
  "map_walk [] i aProperty = []"
| "map_walk (m # mNext) i aProperty =
     (if i \<noteq> aProperty then map_walk mNext (i + 1) aProperty else m # mNext)"

definition ctmGetFloatArray ::
  "openctm_h \<Rightarrow> CTMcontext \<Rightarrow> CTMproperty \<Rightarrow> CTMfloat list option \<times> CTMcontext" where
  "ctmGetFloatArray h aContext aProperty =
     (case aContext of
        None \<Rightarrow> (None, None)
      | Some self \<Rightarrow>
          if aProperty \<ge> CTM_TEX_MAP_1 h \<and> aProperty - CTM_TEX_MAP_1 h < mTexMapCount self then
            (case map_walk (mTexMaps self) (CTM_TEX_MAP_1 h) aProperty of
               [] \<Rightarrow> (None, Some (self\<lparr>mError := CTM_INVALID_ARGUMENT\<rparr>))
             | m # _ \<Rightarrow> (mValues m, Some self))
          else if aProperty \<ge> CTM_ATTRIB_MAP_1 h
                  \<and> aProperty - CTM_ATTRIB_MAP_1 h < mAttribMapCount self then
            (case map_walk (mAttribMaps self) (CTM_ATTRIB_MAP_1 h) aProperty of
               [] \<Rightarrow> (None, Some (self\<lparr>mError := CTM_INVALID_ARGUMENT\<rparr>))
             | m # _ \<Rightarrow> (mValues m, Some self))
          else if aProperty = CTM_VERTICES h then (mVertices self, Some self)
          else if aProperty = CTM_NORMALS h then (mNormals self, Some self)
          else (None, Some (self\<lparr>mError := CTM_INVALID_ARGUMENT\<rparr>)))"

definition ctmGetString ::
  "openctm_h \<Rightarrow> CTMcontext \<Rightarrow> CTMproperty \<Rightarrow> byte list option \<times> CTMcontext" where
  "ctmGetString h aContext aProperty =
     (case aContext of
        None \<Rightarrow> (None, None)
      | Some self \<Rightarrow>
          if aProperty = CTM_FILE_COMMENT h then (mFileComment self, Some self)
          else (None, Some (self\<lparr>mError := CTM_INVALID_ARGUMENT\<rparr>)))"

section \<open>Compression attributes\<close>

definition ctmCompressionMethod :: "CTMcontext \<Rightarrow> CTMmethod \<Rightarrow> CTMcontext" where
  "ctmCompressionMethod aContext aMethod =
     (case aContext of
        None \<Rightarrow> None
      | Some self \<Rightarrow>
          if mMode self \<noteq> CTM_EXPORT then Some (self\<lparr>mError := CTM_INVALID_OPERATION\<rparr>)
          else if aMethod \<noteq> CTM_METHOD_RAW \<and> aMethod \<noteq> CTM_METHOD_MG1
                  \<and> aMethod \<noteq> CTM_METHOD_MG2 then
            Some (self\<lparr>mError := CTM_INVALID_ARGUMENT\<rparr>)
          else Some (self\<lparr>mMethod := aMethod\<rparr>))"

definition ctmVertexPrecision :: "CTMcontext \<Rightarrow> CTMfloat \<Rightarrow> CTMcontext" where
  "ctmVertexPrecision aContext aPrecision =
     (case aContext of
        None \<Rightarrow> None
      | Some self \<Rightarrow>
          if mMode self \<noteq> CTM_EXPORT then Some (self\<lparr>mError := CTM_INVALID_OPERATION\<rparr>)
          else if aPrecision \<le> 0 then Some (self\<lparr>mError := CTM_INVALID_ARGUMENT\<rparr>)
          else Some (self\<lparr>mVertexPrecision := aPrecision\<rparr>))"

text \<open>
  Reading element \<open>k\<close> of an array through a pointer. The C code reads without a test; a read
  through a null pointer or past the end of the array has no defined result and is \<open>None\<close>.
\<close>

definition array_read :: "'a list option \<Rightarrow> nat \<Rightarrow> 'a option" where
  "array_read a k =
     (case a of
        None \<Rightarrow> None
      | Some xs \<Rightarrow> if k < length xs then Some (xs ! k) else None)"

text \<open>
  The term added to \<^verbatim>\<open>avgEdgeLength\<close>, for the pointers \<^verbatim>\<open>p1\<close> and \<^verbatim>\<open>p2\<close> into \<^verbatim>\<open>mVertices\<close>
  (offsets counted in elements).
\<close>

definition edge_length :: "CTMfloat list option \<Rightarrow> nat \<Rightarrow> nat \<Rightarrow> CTMfloat option" where
  "edge_length vs p1 p2 =
     do {
       a0 \<leftarrow> array_read vs p2; b0 \<leftarrow> array_read vs p1;
       a1 \<leftarrow> array_read vs (p2 + 1); b1 \<leftarrow> array_read vs (p1 + 1);
       a2 \<leftarrow> array_read vs (p2 + 2); b2 \<leftarrow> array_read vs (p1 + 2);
       Some (sqrt ((a0 - b0) * (a0 - b0) + (a1 - b1) * (a1 - b1) + (a2 - b2) * (a2 - b2)))
     }"

text \<open>
  One round of the inner loop \<^verbatim>\<open>for(j = 0; j < 3; ++ j)\<close> on the state
  (\<^verbatim>\<open>avgEdgeLength\<close>, \<^verbatim>\<open>p1\<close>, \<^verbatim>\<open>edgeCount\<close>). The index \<^verbatim>\<open>i * 3 + j\<close> and the offset
  \<^verbatim>\<open>mIndices[...] * 3\<close> are computed in \<^verbatim>\<open>CTMuint\<close> and wrap around.
\<close>

definition edge_step ::
  "u_CTMcontext \<Rightarrow> CTMuint \<Rightarrow> CTMuint \<Rightarrow> CTMfloat \<times> nat \<times> CTMuint \<Rightarrow> (CTMfloat \<times> nat \<times> CTMuint) option" where
  "edge_step self i j st =
     (case st of (avgEdgeLength, p1, edgeCount) \<Rightarrow>
        do {
          ix \<leftarrow> array_read (mIndices self) (unat (i * 3 + j));
          let p2 = unat (ix * 3);
          d \<leftarrow> edge_length (mVertices self) p1 p2;
          Some (avgEdgeLength + d, p2, edgeCount + 1)
        })"

text \<open>The outer loop \<^verbatim>\<open>for(i = 0; i < self->mTriangleCount; ++ i)\<close>, its three inner rounds unrolled.\<close>

function triangle_loop ::
  "u_CTMcontext \<Rightarrow> CTMuint \<Rightarrow> CTMfloat \<times> CTMuint \<Rightarrow> (CTMfloat \<times> CTMuint) option" where
  "triangle_loop self i acc =
     (if i < mTriangleCount self then
        (case acc of (avgEdgeLength, edgeCount) \<Rightarrow>
           (case array_read (mIndices self) (unat (i * 3 + 2)) of
              None \<Rightarrow> None
            | Some ix \<Rightarrow>
                (case Option.bind (Option.bind
                        (edge_step self i 0 (avgEdgeLength, unat (ix * 3), edgeCount))
                        (edge_step self i 1)) (edge_step self i 2) of
                   None \<Rightarrow> None
                 | Some (avgEdgeLength', p1, edgeCount') \<Rightarrow>
                     triangle_loop self (i + 1) (avgEdgeLength', edgeCount'))))
      else Some acc)"
  by pat_completeness auto
termination
proof (relation "measure (\<lambda>(self, i, acc). unat (mTriangleCount self) - unat i)")
  show "wf (measure (\<lambda>(self, i, acc). unat (mTriangleCount self) - unat i))"
    by simp
next
  fix self :: u_CTMcontext and i :: CTMuint and acc :: "CTMfloat \<times> CTMuint"
  assume less: "i < mTriangleCount self"
  then have "unat i < unat (mTriangleCount self)"
    by (simp add: word_less_nat_alt)
  then have "unat i + unat (1 :: CTMuint) < 2 ^ LENGTH(32)"
    using unsigned_less [of "mTriangleCount self", where 'a = nat] by simp
  then have "unat (i + 1) = unat i + unat (1 :: CTMuint)"
    by (simp only: unat_add_lem)
  with \<open>unat i < unat (mTriangleCount self)\<close> show "\<And>a b c d e f g. ((self, i + 1, a, g), self, i, acc)
      \<in> measure (\<lambda>(self, i, acc). unat (mTriangleCount self) - unat i)"
    by simp
qed

declare triangle_loop.simps [simp del]

text \<open>\<^verbatim>\<open>ctmVertexPrecisionRel\<close>: \<open>None\<close> when the loop reads outside an array.\<close>

definition ctmVertexPrecisionRel :: "CTMcontext \<Rightarrow> CTMfloat \<Rightarrow> CTMcontext option" where
  "ctmVertexPrecisionRel aContext aRelPrecision =
     (case aContext of
        None \<Rightarrow> Some None
      | Some self \<Rightarrow>
          if mMode self \<noteq> CTM_EXPORT then Some (Some (self\<lparr>mError := CTM_INVALID_OPERATION\<rparr>))
          else if aRelPrecision \<le> 0 then Some (Some (self\<lparr>mError := CTM_INVALID_ARGUMENT\<rparr>))
          else
            (case triangle_loop self 0 (0, 0) of
               None \<Rightarrow> None
             | Some (avgEdgeLength, edgeCount) \<Rightarrow>
                 if edgeCount = 0 then Some (Some (self\<lparr>mError := CTM_INVALID_MESH\<rparr>))
                 else Some (Some (self\<lparr>mVertexPrecision :=
                        aRelPrecision * (avgEdgeLength / real (unat edgeCount))\<rparr>))))"



section \<open>File comment and mesh definition\<close>

text \<open>
  \<^verbatim>\<open>ctmFileComment\<close>. The argument \<open>malloc_ok\<close> says whether the one call of \<^verbatim>\<open>malloc\<close> succeeds.
  The length is held in an \<^verbatim>\<open>int\<close>; strings are taken to be shorter than \<open>2\<^sup>3\<^sup>1\<close> bytes.
\<close>

definition ctmFileComment :: "CTMcontext \<Rightarrow> byte list option \<Rightarrow> bool \<Rightarrow> CTMcontext" where
  "ctmFileComment aContext aFileComment malloc_ok =
     (case aContext of
        None \<Rightarrow> None
      | Some self \<Rightarrow>
          if mMode self \<noteq> CTM_EXPORT then Some (self\<lparr>mError := CTM_INVALID_OPERATION\<rparr>)
          else
            let self1 = (if mFileComment self \<noteq> None then self\<lparr>mFileComment := None\<rparr> else self)
            in (case aFileComment of
                  None \<Rightarrow> Some self1
                | Some str \<Rightarrow>
                    if length str = 0 then Some self1
                    else if \<not> malloc_ok then
                      Some (self1\<lparr>mFileComment := None, mError := CTM_OUT_OF_MEMORY\<rparr>)
                    else Some (self1\<lparr>mFileComment := Some str\<rparr>)))"

text \<open>\<^verbatim>\<open>ctmDefineMesh\<close>: \<open>None\<close> when \<^verbatim>\<open>_ctmClearMesh\<close> does not return.\<close>

definition ctmDefineMesh ::
  "CTMcontext \<Rightarrow> CTMfloat list option \<Rightarrow> CTMuint \<Rightarrow> CTMuint list option \<Rightarrow> CTMuint
     \<Rightarrow> CTMfloat list option \<Rightarrow> CTMcontext option" where
  "ctmDefineMesh aContext aVertices aVertexCount aIndices aTriangleCount aNormals =
     (case aContext of
        None \<Rightarrow> Some None
      | Some self \<Rightarrow>
          if mMode self \<noteq> CTM_EXPORT then Some (Some (self\<lparr>mError := CTM_INVALID_OPERATION\<rparr>))
          else if aVertices = None \<or> aIndices = None \<or> aVertexCount = 0 \<or> aTriangleCount = 0 then
            Some (Some (self\<lparr>mError := CTM_INVALID_ARGUMENT\<rparr>))
          else
            do {
              self1 \<leftarrow> u_ctmClearMesh self;
              Some (Some (self1\<lparr>mVertices := aVertices, mVertexCount := aVertexCount,
                                 mIndices := aIndices, mTriangleCount := aTriangleCount,
                                 mNormals := aNormals\<rparr>))
            })"

text \<open>\<^verbatim>\<open>ctmAddTexMap\<close> and \<^verbatim>\<open>ctmAddAttribMap\<close>: the body is \<^verbatim>\<open>// FIXME!\<close> and \<^verbatim>\<open>return CTM_NONE;\<close>.\<close>

definition ctmAddTexMap ::
  "openctm_h \<Rightarrow> CTMcontext \<Rightarrow> CTMfloat list option \<Rightarrow> byte list option \<Rightarrow> CTMproperty \<times> CTMcontext" where
  "ctmAddTexMap h aContext aTexCoords aName = (CTM_NONE h, aContext)"

definition ctmAddAttribMap ::
  "openctm_h \<Rightarrow> CTMcontext \<Rightarrow> CTMfloat list option \<Rightarrow> byte list option \<Rightarrow> CTMproperty \<times> CTMcontext" where
  "ctmAddAttribMap h aContext aAttribValues aName = (CTM_NONE h, aContext)"

section \<open>The stream layer\<close>

text \<open>
  Modelled from the spec: the stream helpers \<^verbatim>\<open>_ctmStreamRead\<close>, \<^verbatim>\<open>_ctmStreamReadUINT\<close>,
  \<^verbatim>\<open>_ctmStreamReadSTRING\<close>, \<^verbatim>\<open>_ctmStreamWrite\<close>, \<^verbatim>\<open>_ctmStreamWriteUINT\<close>, \<^verbatim>\<open>_ctmStreamWriteSTRING\<close> and
  the macros \<^verbatim>\<open>FOURCC\<close> and \<^verbatim>\<open>_CTM_HAS_NORMALS_BIT\<close> are called by \<^verbatim>\<open>openctm.c\<close> but defined
  elsewhere. The spec: the callbacks transfer bytes in order and return the count transferred,
  which the header code does not look at; all header integers are 32 bits wide in one byte
  order chosen by the implementation (least significant byte first here, for \<^verbatim>\<open>FOURCC\<close> as
  well); the comment is a text with its length before it, length 0 standing for no text;
  bit 0 of the flags says that normals are present.

  The output stream is the list of the bytes handed to the write callback so far; the input
  stream is the list of the bytes the read callback has still to deliver. A read past the
  end of the input delivers fewer bytes; the bytes of the buffer that are not delivered are
  indeterminate in C and read as 0 here.
\<close>

definition u_ctmStreamWrite :: "byte list \<Rightarrow> byte list \<Rightarrow> byte list" where
  "u_ctmStreamWrite out aBuf = out @ aBuf"

definition uint_bytes :: "CTMuint \<Rightarrow> byte list" where
  "uint_bytes v = [ucast v, ucast (drop_bit 8 v), ucast (drop_bit 16 v), ucast (drop_bit 24 v)]"

definition u_ctmStreamWriteUINT :: "byte list \<Rightarrow> CTMuint \<Rightarrow> byte list" where
  "u_ctmStreamWriteUINT out aValue = u_ctmStreamWrite out (uint_bytes aValue)"

definition u_ctmStreamWriteSTRING :: "byte list \<Rightarrow> byte list option \<Rightarrow> byte list" where
  "u_ctmStreamWriteSTRING out aValue =
     (case aValue of
        None \<Rightarrow> u_ctmStreamWriteUINT out 0
      | Some str \<Rightarrow>
          let out1 = u_ctmStreamWriteUINT out (word_of_nat (length str))
          in if str = [] then out1 else u_ctmStreamWrite out1 str)"

definition u_ctmStreamRead :: "byte list \<Rightarrow> nat \<Rightarrow> byte list \<times> byte list" where
  "u_ctmStreamRead inp aCount = (take aCount inp, drop aCount inp)"

definition byte_at :: "byte list \<Rightarrow> nat \<Rightarrow> byte" where
  "byte_at buf k = (if k < length buf then buf ! k else 0)"

definition bytes_uint :: "byte list \<Rightarrow> CTMuint" where
  "bytes_uint buf =
     ucast (byte_at buf 0) OR push_bit 8 (ucast (byte_at buf 1))
       OR push_bit 16 (ucast (byte_at buf 2)) OR push_bit 24 (ucast (byte_at buf 3))"

definition u_ctmStreamReadUINT :: "byte list \<Rightarrow> CTMuint \<times> byte list" where
  "u_ctmStreamReadUINT inp =
     (case u_ctmStreamRead inp 4 of (buf, inp1) \<Rightarrow> (bytes_uint buf, inp1))"

definition u_ctmStreamReadSTRING :: "byte list \<Rightarrow> byte list option \<times> byte list" where
  "u_ctmStreamReadSTRING inp =
     (case u_ctmStreamReadUINT inp of (len, inp1) \<Rightarrow>
        if len = 0 then (None, inp1)
        else (case u_ctmStreamRead inp1 (unat len) of (str, inp2) \<Rightarrow> (Some str, inp2)))"

definition FOURCC :: "byte list \<Rightarrow> CTMuint" where
  "FOURCC str = bytes_uint str"

definition u_CTM_HAS_NORMALS_BIT :: CTMuint where
  "u_CTM_HAS_NORMALS_BIT = 1"

text \<open>The four-byte literals \<^verbatim>\<open>"OCTM"\<close>, \<^verbatim>\<open>"RAW\0"\<close>, \<^verbatim>\<open>"MG1\0"\<close> and \<^verbatim>\<open>"MG2\0"\<close>.\<close>

definition str_OCTM :: "byte list" where
  "str_OCTM = map of_char ''OCTM''"

definition str_RAW :: "byte list" where
  "str_RAW = map of_char ''RAW'' @ [0]"

definition str_MG1 :: "byte list" where
  "str_MG1 = map of_char ''MG1'' @ [0]"

definition str_MG2 :: "byte list" where
  "str_MG2 = map of_char ''MG2'' @ [0]"

text \<open>
  The codecs \<^verbatim>\<open>_ctmCompressMesh_*\<close> and \<^verbatim>\<open>_ctmUncompressMesh_*\<close> are external: each is a
  function on the context and the stream, taken as a parameter.
\<close>

record codecs =
  u_ctmCompressMesh_RAW :: "u_CTMcontext \<times> byte list \<Rightarrow> u_CTMcontext \<times> byte list"
  u_ctmCompressMesh_MG1 :: "u_CTMcontext \<times> byte list \<Rightarrow> u_CTMcontext \<times> byte list"
  u_ctmCompressMesh_MG2 :: "u_CTMcontext \<times> byte list \<Rightarrow> u_CTMcontext \<times> byte list"
  u_ctmUncompressMesh_RAW :: "u_CTMcontext \<times> byte list \<Rightarrow> u_CTMcontext \<times> byte list"
  u_ctmUncompressMesh_MG1 :: "u_CTMcontext \<times> byte list \<Rightarrow> u_CTMcontext \<times> byte list"
  u_ctmUncompressMesh_MG2 :: "u_CTMcontext \<times> byte list \<Rightarrow> u_CTMcontext \<times> byte list"

section \<open>Loading\<close>

text \<open>
  \<^verbatim>\<open>ctmLoad\<close> and \<^verbatim>\<open>ctmSave\<close> open a file and call \<^verbatim>\<open>ctmLoadCustom\<close> and \<^verbatim>\<open>ctmSaveCustom\<close> with the
  default callbacks; the file system is not part of this model.

  The outcomes of the calls of \<^verbatim>\<open>malloc\<close> in \<^verbatim>\<open>ctmLoadCustom\<close> are given by a list of booleans, one
  per call in the order of the calls (a call beyond the list fails). A fresh array is filled
  with zeros here; in C its contents are indeterminate until the codec writes them.
\<close>

definition malloc :: "bool list \<Rightarrow> bool \<times> bool list" where
  "malloc mallocs = (case mallocs of [] \<Rightarrow> (False, []) | ok # rest \<Rightarrow> (ok, rest))"

text \<open>
  \<^verbatim>\<open>ctmLoadCustom\<close> is written in the three parts its comments name. Each part either ends the
  call (\<open>Inl\<close>, a \<^verbatim>\<open>return\<close> of the C code, with the context and the stream at that point) or
  hands on to the next part (\<open>Inr\<close>).

  The part \<^verbatim>\<open>// Read header from stream\<close>, on the context that \<^verbatim>\<open>_ctmClearMesh\<close> has left; it
  hands on the context, the flags and the stream.
\<close>

definition ctmLoadCustom_header ::
  "openctm_h \<Rightarrow> u_CTMcontext \<Rightarrow> byte list
     \<Rightarrow> (u_CTMcontext \<times> byte list) + (u_CTMcontext \<times> CTMuint \<times> byte list)" where
  "ctmLoadCustom_header h self inp =
     (let (magic, inp1) = u_ctmStreamReadUINT inp in
      if magic \<noteq> FOURCC str_OCTM then Inl (self\<lparr>mError := CTM_FORMAT_ERROR\<rparr>, inp1)
      else
      let (formatVersion, inp2) = u_ctmStreamReadUINT inp1 in
      if formatVersion \<noteq> u_CTM_FORMAT_VERSION h then Inl (self\<lparr>mError := CTM_FORMAT_ERROR\<rparr>, inp2)
      else
      let (method, inp3) = u_ctmStreamReadUINT inp2 in
      if method \<noteq> FOURCC str_RAW \<and> method \<noteq> FOURCC str_MG1 \<and> method \<noteq> FOURCC str_MG2 then
        Inl (self\<lparr>mError := CTM_FORMAT_ERROR\<rparr>, inp3)
      else
      let self1 = self\<lparr>mMethod :=
                    (if method = FOURCC str_RAW then CTM_METHOD_RAW
                     else if method = FOURCC str_MG1 then CTM_METHOD_MG1
                     else CTM_METHOD_MG2)\<rparr>;
          (vertexCount, inp4) = u_ctmStreamReadUINT inp3;
          self2 = self1\<lparr>mVertexCount := vertexCount\<rparr> in
      if mVertexCount self2 = 0 then Inl (self2\<lparr>mError := CTM_FORMAT_ERROR\<rparr>, inp4)
      else
      let (triangleCount, inp5) = u_ctmStreamReadUINT inp4;
          self3 = self2\<lparr>mTriangleCount := triangleCount\<rparr> in
      if mTriangleCount self3 = 0 then Inl (self3\<lparr>mError := CTM_FORMAT_ERROR\<rparr>, inp5)
      else
      let (texMapCount, inp6) = u_ctmStreamReadUINT inp5;
          self4 = self3\<lparr>mTexMapCount := texMapCount\<rparr>;
          (attribMapCount, inp7) = u_ctmStreamReadUINT inp6;
          self5 = self4\<lparr>mAttribMapCount := attribMapCount\<rparr>;
          (flags, inp8) = u_ctmStreamReadUINT inp7;
          (comment, inp9) = u_ctmStreamReadSTRING inp8
      in Inr (self5\<lparr>mFileComment := comment\<rparr>, flags, inp9))"

text \<open>
  The part \<^verbatim>\<open>// Allocate memory for the mesh arrays\<close>; \<open>None\<close> when \<^verbatim>\<open>_ctmClearMesh\<close> does not
  return.
\<close>

definition ctmLoadCustom_alloc ::
  "u_CTMcontext \<Rightarrow> CTMuint \<Rightarrow> bool list \<Rightarrow> (u_CTMcontext + u_CTMcontext) option" where
  "ctmLoadCustom_alloc self flags mallocs =
     (let (ok1, mallocs1) = malloc mallocs in
      if \<not> ok1 then Some (Inl (self\<lparr>mVertices := None, mError := CTM_OUT_OF_MEMORY\<rparr>))
      else
      let self1 = self\<lparr>mVertices := Some (replicate (unat (mVertexCount self) * 3) 0)\<rparr>;
          (ok2, mallocs2) = malloc mallocs1 in
      if \<not> ok2 then
        do {
          self2 \<leftarrow> u_ctmClearMesh (self1\<lparr>mIndices := None\<rparr>);
          Some (Inl (self2\<lparr>mError := CTM_OUT_OF_MEMORY\<rparr>))
        }
      else
      let self2 = self1\<lparr>mIndices := Some (replicate (unat (mTriangleCount self1) * 3) 0)\<rparr> in
      if flags AND u_CTM_HAS_NORMALS_BIT \<noteq> 0 then
        let (ok3, mallocs3) = malloc mallocs2 in
        if \<not> ok3 then
          do {
            self3 \<leftarrow> u_ctmClearMesh (self2\<lparr>mNormals := None\<rparr>);
            Some (Inl (self3\<lparr>mError := CTM_OUT_OF_MEMORY\<rparr>))
          }
        else Some (Inr (self2\<lparr>mNormals := Some (replicate (unat (mVertexCount self2) * 3) 0)\<rparr>))
      else Some (Inr self2))"

text \<open>The part \<^verbatim>\<open>// Uncompress from stream\<close>.\<close>

definition ctmLoadCustom_uncompress ::
  "codecs \<Rightarrow> u_CTMcontext \<Rightarrow> byte list \<Rightarrow> u_CTMcontext \<times> byte list" where
  "ctmLoadCustom_uncompress cs self inp =
     (case mMethod self of
        CTM_METHOD_RAW \<Rightarrow> u_ctmUncompressMesh_RAW cs (self, inp)
      | CTM_METHOD_MG1 \<Rightarrow> u_ctmUncompressMesh_MG1 cs (self, inp)
      | CTM_METHOD_MG2 \<Rightarrow> u_ctmUncompressMesh_MG2 cs (self, inp)
      | CTM_METHOD_UNKNOWN \<Rightarrow> (self, inp))"

text \<open>
  \<^verbatim>\<open>ctmLoadCustom\<close> returns the context and the rest of the input stream; \<open>None\<close> when
  \<^verbatim>\<open>_ctmClearMesh\<close> does not return.
\<close>

definition ctmLoadCustom ::
  "openctm_h \<Rightarrow> codecs \<Rightarrow> CTMcontext \<Rightarrow> CTMreadfn \<Rightarrow> nat option \<Rightarrow> bool list \<Rightarrow> byte list
     \<Rightarrow> (CTMcontext \<times> byte list) option" where
  "ctmLoadCustom h cs aContext aReadFn aUserData mallocs inp =
     (case aContext of
        None \<Rightarrow> Some (None, inp)
      | Some self \<Rightarrow>
          if mMode self \<noteq> CTM_IMPORT then Some (Some (self\<lparr>mError := CTM_INVALID_OPERATION\<rparr>), inp)
          else
            do {
              self1 \<leftarrow> u_ctmClearMesh (self\<lparr>mReadFn := Some aReadFn, mUserData := aUserData\<rparr>);
              case ctmLoadCustom_header h self1 inp of
                Inl (self2, inp1) \<Rightarrow> Some (Some self2, inp1)
              | Inr (self2, flags, inp1) \<Rightarrow>
                  do {
                    r \<leftarrow> ctmLoadCustom_alloc self2 flags mallocs;
                    case r of
                      Inl self3 \<Rightarrow> Some (Some self3, inp1)
                    | Inr self3 \<Rightarrow> Some (apfst Some (ctmLoadCustom_uncompress cs self3 inp1))
                  }
            })"

section \<open>Saving\<close>

text \<open>\<^verbatim>\<open>ctmSaveCustom\<close> returns the context and the output stream.\<close>

definition ctmSaveCustom ::
  "openctm_h \<Rightarrow> codecs \<Rightarrow> CTMcontext \<Rightarrow> CTMwritefn \<Rightarrow> nat option \<Rightarrow> byte list
     \<Rightarrow> CTMcontext \<times> byte list" where
  "ctmSaveCustom h cs aContext aWriteFn aUserData out =
     (case aContext of
        None \<Rightarrow> (None, out)
      | Some self \<Rightarrow>
          if mMode self \<noteq> CTM_EXPORT then (Some (self\<lparr>mError := CTM_INVALID_OPERATION\<rparr>), out)
          else if mVertices self = None \<or> mIndices self = None \<or> mVertexCount self < 1
                  \<or> mTriangleCount self < 1 then
            (Some (self\<lparr>mError := CTM_INVALID_MESH\<rparr>), out)
          else
            let self1 = self\<lparr>mWriteFn := Some aWriteFn, mUserData := aUserData\<rparr>;
                flags = (if mNormals self1 \<noteq> None then 0 OR u_CTM_HAS_NORMALS_BIT else 0);
                out1 = u_ctmStreamWrite out str_OCTM;
                out2 = u_ctmStreamWriteUINT out1 (u_CTM_FORMAT_VERSION h);
                out3 = (case mMethod self1 of
                          CTM_METHOD_RAW \<Rightarrow> u_ctmStreamWrite out2 str_RAW
                        | CTM_METHOD_MG1 \<Rightarrow> u_ctmStreamWrite out2 str_MG1
                        | CTM_METHOD_MG2 \<Rightarrow> u_ctmStreamWrite out2 str_MG2
                        | CTM_METHOD_UNKNOWN \<Rightarrow> out2);
                out4 = u_ctmStreamWriteUINT out3 (mVertexCount self1);
                out5 = u_ctmStreamWriteUINT out4 (mTriangleCount self1);
                out6 = u_ctmStreamWriteUINT out5 (mTexMapCount self1);
                out7 = u_ctmStreamWriteUINT out6 (mAttribMapCount self1);
                out8 = u_ctmStreamWriteUINT out7 flags;
                out9 = u_ctmStreamWriteSTRING out8 (mFileComment self1)
            in (case mMethod self1 of
                  CTM_METHOD_RAW \<Rightarrow> apfst Some (u_ctmCompressMesh_RAW cs (self1, out9))
                | CTM_METHOD_MG1 \<Rightarrow> apfst Some (u_ctmCompressMesh_MG1 cs (self1, out9))
                | CTM_METHOD_MG2 \<Rightarrow> apfst Some (u_ctmCompressMesh_MG2 cs (self1, out9))
                | CTM_METHOD_UNKNOWN \<Rightarrow> (Some self1, out9)))"

section \<open>Sample values\<close>

text \<open>
  Concrete inputs on which the theorems below are evaluated: a table of identifier values
  (the general theorems hold for every table), codecs that leave context and stream as
  they are, a context as \<^verbatim>\<open>ctmNewContext\<close> makes it, the same context with a map in its
  texture-map list, contexts with a one-triangle mesh (export and import), and contexts with
  two and with 256 texture maps.
\<close>

definition sample_h :: openctm_h where
  "sample_h =
     \<lparr>CTM_NONE = 0x0000, CTM_VERTEX_COUNT = 0x0301, CTM_TRIANGLE_COUNT = 0x0302,
      CTM_TEX_MAP_COUNT = 0x0303, CTM_ATTRIB_MAP_COUNT = 0x0304, CTM_HAS_NORMALS = 0x0305,
      CTM_INDICES = 0x0601, CTM_VERTICES = 0x0602, CTM_NORMALS = 0x0603,
      CTM_FILE_COMMENT = 0x0501, CTM_TEX_MAP_1 = 0x0700, CTM_ATTRIB_MAP_1 = 0x0800,
      CTM_TRUE = 1, CTM_FALSE = 0, u_CTM_FORMAT_VERSION = 1\<rparr>"

definition sample_codecs :: codecs where
  "sample_codecs =
     \<lparr>u_ctmCompressMesh_RAW = id, u_ctmCompressMesh_MG1 = id, u_ctmCompressMesh_MG2 = id,
      u_ctmUncompressMesh_RAW = id, u_ctmUncompressMesh_MG1 = id, u_ctmUncompressMesh_MG2 = id\<rparr>"

definition new_context :: "CTMcontextmode \<Rightarrow> u_CTMcontext" where
  "new_context aMode =
     \<lparr>mMode = aMode, mError = CTM_NO_ERROR, mMethod = CTM_METHOD_MG1,
      mVertexPrecision = 1 / 1024,
      mVertices = None, mVertexCount = 0, mIndices = None, mTriangleCount = 0,
      mNormals = None, mTexMaps = [], mTexMapCount = 0,
      mAttribMaps = [], mAttribMapCount = 0, mFileComment = None,
      mReadFn = None, mWriteFn = None, mUserData = None\<rparr>"

definition sample_map :: u_CTMfloatmap where
  "sample_map = \<lparr>mName = None, mValues = Some [0, 0, 1, 0, 0, 1]\<rparr>"

definition context_with_map :: "CTMcontextmode \<Rightarrow> u_CTMcontext" where
  "context_with_map aMode = (new_context aMode)\<lparr>mTexMaps := [sample_map], mTexMapCount := 1\<rparr>"

definition triangle_context :: u_CTMcontext where
  "triangle_context =
     (new_context CTM_EXPORT)\<lparr>mVertices := Some [0, 0, 0, 1, 0, 0, 0, 1, 0], mVertexCount := 3,
                                mIndices := Some [0, 1, 2], mTriangleCount := 1\<rparr>"


definition equilateral_context :: u_CTMcontext where
  "equilateral_context =
     (new_context CTM_EXPORT)\<lparr>mVertices := Some [1, 0, 0, 0, 1, 0, 0, 0, 1], mVertexCount := 3,
                                mIndices := Some [0, 1, 2], mTriangleCount := 1\<rparr>"

definition two_maps_context :: u_CTMcontext where
  "two_maps_context =
     (new_context CTM_IMPORT)\<lparr>mTexMaps := [sample_map, \<lparr>mName = None, mValues = Some [5, 5]\<rparr>],
        mTexMapCount := 2,
        mAttribMaps := [\<lparr>mName = None, mValues = Some [7, 7, 7]\<rparr>], mAttribMapCount := 1\<rparr>"

definition crowded_context :: u_CTMcontext where
  "crowded_context =
     (new_context CTM_IMPORT)\<lparr>mTexMaps := replicate 256 sample_map, mTexMapCount := 256,
        mAttribMaps := [\<lparr>mName = None, mValues = Some [7, 7, 7]\<rparr>], mAttribMapCount := 1\<rparr>"

section \<open>Notions used in the statements\<close>

text \<open>
  The two range tests of \<^verbatim>\<open>ctmGetFloatArray\<close> (and of \<^verbatim>\<open>ctmTexCoordPrecision\<close> and
  \<^verbatim>\<open>ctmAttribPrecision\<close>): the identifier lies in the range that starts at the list's base
  identifier and is as long as the list's count.
\<close>

definition is_tex_map_id :: "openctm_h \<Rightarrow> u_CTMcontext \<Rightarrow> CTMproperty \<Rightarrow> bool" where
  "is_tex_map_id h self aProperty \<longleftrightarrow>
     aProperty \<ge> CTM_TEX_MAP_1 h \<and> aProperty - CTM_TEX_MAP_1 h < mTexMapCount self"

definition is_attrib_map_id :: "openctm_h \<Rightarrow> u_CTMcontext \<Rightarrow> CTMproperty \<Rightarrow> bool" where
  "is_attrib_map_id h self aProperty \<longleftrightarrow>
     aProperty \<ge> CTM_ATTRIB_MAP_1 h \<and> aProperty - CTM_ATTRIB_MAP_1 h < mAttribMapCount self"



text \<open>
  The context as \<^verbatim>\<open>ctmLoadCustom\<close> has it when it starts to read the header: the callback and
  the user data are bound and the mesh is cleared.
\<close>

definition cleared_for_load :: "u_CTMcontext \<Rightarrow> CTMreadfn \<Rightarrow> nat option \<Rightarrow> u_CTMcontext" where
  "cleared_for_load self aReadFn aUserData =
     self\<lparr>mReadFn := Some aReadFn, mUserData := aUserData, mVertices := None, mVertexCount := 0,
          mIndices := None, mTriangleCount := 0, mNormals := None, mTexMapCount := 0,
          mAttribMapCount := 0\<rparr>"

text \<open>
  For the relative precision: the corner of index \<open>ix\<close> in the vertex array, the Euclidean
  distance of two corners, the sum of the lengths of the three edges of triangle \<open>t\<close>, and a
  mesh whose arrays have the lengths the counts say, whose indices are below the vertex
  count and whose counts, taken three times, fit in a \<^verbatim>\<open>CTMuint\<close>.
\<close>

definition vertex_of :: "CTMfloat list \<Rightarrow> CTMuint \<Rightarrow> CTMfloat \<times> CTMfloat \<times> CTMfloat" where
  "vertex_of vs ix = (vs ! (unat ix * 3), vs ! (unat ix * 3 + 1), vs ! (unat ix * 3 + 2))"

definition distance :: "CTMfloat \<times> CTMfloat \<times> CTMfloat \<Rightarrow> CTMfloat \<times> CTMfloat \<times> CTMfloat \<Rightarrow> CTMfloat" where
  "distance q p =
     (case q of (a0, a1, a2) \<Rightarrow> case p of (b0, b1, b2) \<Rightarrow>
        sqrt ((a0 - b0) * (a0 - b0) + (a1 - b1) * (a1 - b1) + (a2 - b2) * (a2 - b2)))"

definition perimeter :: "CTMfloat list \<Rightarrow> CTMuint list \<Rightarrow> nat \<Rightarrow> CTMfloat" where
  "perimeter vs ixs t =
     (let a = vertex_of vs (ixs ! (3 * t)); b = vertex_of vs (ixs ! (3 * t + 1));
          c = vertex_of vs (ixs ! (3 * t + 2))
      in distance a c + distance b a + distance c b)"

definition well_formed_mesh :: "u_CTMcontext \<Rightarrow> CTMfloat list \<Rightarrow> CTMuint list \<Rightarrow> bool" where
  "well_formed_mesh self vs ixs \<longleftrightarrow>
     mVertices self = Some vs \<and> mIndices self = Some ixs
     \<and> length vs = 3 * unat (mVertexCount self) \<and> length ixs = 3 * unat (mTriangleCount self)
     \<and> list_all (\<lambda>ix. ix < mVertexCount self) ixs
     \<and> 3 * unat (mVertexCount self) < 2 ^ 32 \<and> 3 * unat (mTriangleCount self) < 2 ^ 32"

section \<open>Basic facts\<close>

lemma ctmNewContext_new_context: "ctmNewContext aMode = Some (new_context aMode)"
  by (simp add: ctmNewContext_def new_context_def)

lemma u_ctmFreeMapList_Nil: "u_ctmFreeMapList self [] = Some ()"
  by (simp add: u_ctmFreeMapList.simps)

lemma u_ctmFreeMapList_returns: "u_ctmFreeMapList self aMapList = Some u \<Longrightarrow> aMapList = []"
  by (rule u_ctmFreeMapList.raw_induct
        [where P = "\<lambda>self aMapList u. aMapList = []" and self = self
           and aMapList = aMapList and y = u])
     (auto split: list.splits)

lemma u_ctmFreeMapList_Cons: "u_ctmFreeMapList self (m # nextMap) = None"
  using u_ctmFreeMapList_returns [of self "m # nextMap"]
  by (cases "u_ctmFreeMapList self (m # nextMap)") auto

lemma u_ctmFreeMapList_eq:
  "u_ctmFreeMapList self aMapList = (if aMapList = [] then Some () else None)"
  by (cases aMapList) (simp_all add: u_ctmFreeMapList_Nil u_ctmFreeMapList_Cons)

text \<open>
  \<^verbatim>\<open>_ctmClearMesh\<close> returns exactly on the contexts whose two map lists are empty, and then
  leaves a context without arrays and with all counts 0.
\<close>

lemma u_ctmClearMesh_eq:
  "u_ctmClearMesh self =
     (if mTexMaps self = [] \<and> mAttribMaps self = [] then
        Some (self\<lparr>mVertices := None, mVertexCount := 0, mIndices := None, mTriangleCount := 0,
                    mNormals := None, mTexMapCount := 0, mAttribMapCount := 0\<rparr>)
      else None)"
  by (simp add: u_ctmClearMesh_def u_ctmFreeMapList_eq Let_def)




lemma str_bytes:
  "str_OCTM = [0x4F, 0x43, 0x54, 0x4D]" "str_RAW = [0x52, 0x41, 0x57, 0]"
  "str_MG1 = [0x4D, 0x47, 0x31, 0]" "str_MG2 = [0x4D, 0x47, 0x32, 0]"
  by (simp_all add: str_OCTM_def str_RAW_def str_MG1_def str_MG2_def)

lemma length_str [simp]:
  "length str_OCTM = 4" "length str_RAW = 4" "length str_MG1 = 4" "length str_MG2 = 4"
  by (simp_all add: str_bytes)



section \<open>Mode gate and error register\<close>

text \<open>
  C1. Called on a context in import mode, each of \<^verbatim>\<open>ctmCompressionMethod\<close>,
  \<^verbatim>\<open>ctmVertexPrecision\<close>, \<^verbatim>\<open>ctmVertexPrecisionRel\<close>, \<^verbatim>\<open>ctmFileComment\<close>, \<^verbatim>\<open>ctmDefineMesh\<close> and
  \<^verbatim>\<open>ctmSaveCustom\<close> returns the context with \<open>CTM_INVALID_OPERATION\<close> in the error register and
  every other field as it was (and \<^verbatim>\<open>ctmSaveCustom\<close> writes nothing); called on a context in
  export mode, \<^verbatim>\<open>ctmLoadCustom\<close> does the same (and reads nothing).
\<close>

theorem mode_gating:
  "(mMode self = CTM_IMPORT \<longrightarrow>
      ctmCompressionMethod (Some self) aMethod = Some (self\<lparr>mError := CTM_INVALID_OPERATION\<rparr>)
    \<and> ctmVertexPrecision (Some self) aPrecision = Some (self\<lparr>mError := CTM_INVALID_OPERATION\<rparr>)
    \<and> ctmVertexPrecisionRel (Some self) aRelPrecision
        = Some (Some (self\<lparr>mError := CTM_INVALID_OPERATION\<rparr>))
    \<and> ctmFileComment (Some self) aFileComment malloc_ok
        = Some (self\<lparr>mError := CTM_INVALID_OPERATION\<rparr>)
    \<and> ctmDefineMesh (Some self) aVertices aVertexCount aIndices aTriangleCount aNormals
        = Some (Some (self\<lparr>mError := CTM_INVALID_OPERATION\<rparr>))
    \<and> ctmSaveCustom h cs (Some self) aWriteFn aUserData out
        = (Some (self\<lparr>mError := CTM_INVALID_OPERATION\<rparr>), out))
   \<and> (mMode self = CTM_EXPORT \<longrightarrow>
      ctmLoadCustom h cs (Some self) aReadFn aUserData mallocs inp
        = Some (Some (self\<lparr>mError := CTM_INVALID_OPERATION\<rparr>), inp))"
  by (simp add: ctmCompressionMethod_def ctmVertexPrecision_def ctmVertexPrecisionRel_def
      ctmFileComment_def ctmDefineMesh_def ctmSaveCustom_def ctmLoadCustom_def)

theorem mode_gating_witness:
  "mMode (context_with_map CTM_IMPORT) = CTM_IMPORT
   \<and> ctmCompressionMethod (Some (context_with_map CTM_IMPORT)) CTM_METHOD_RAW
       = Some ((context_with_map CTM_IMPORT)\<lparr>mError := CTM_INVALID_OPERATION\<rparr>)
   \<and> ctmDefineMesh (Some (context_with_map CTM_IMPORT)) (Some [0, 0, 0]) 1 (Some [0, 0, 0]) 1 None
       = Some (Some ((context_with_map CTM_IMPORT)\<lparr>mError := CTM_INVALID_OPERATION\<rparr>))
   \<and> ctmSaveCustom sample_h sample_codecs (Some (context_with_map CTM_IMPORT)) 0 None [7]
       = (Some ((context_with_map CTM_IMPORT)\<lparr>mError := CTM_INVALID_OPERATION\<rparr>), [7])
   \<and> mMode triangle_context = CTM_EXPORT
   \<and> ctmLoadCustom sample_h sample_codecs (Some triangle_context) 0 None [True] [7]
       = Some (Some (triangle_context\<lparr>mError := CTM_INVALID_OPERATION\<rparr>), [7])"
  using mode_gating [where self = "context_with_map CTM_IMPORT" and aMethod = "CTM_METHOD_RAW"
      and aVertices = "Some [0, 0, 0]" and aVertexCount = "1" and aIndices = "Some [0, 0, 0]"
      and aTriangleCount = "1" and aNormals = "None" and h = "sample_h" and cs = "sample_codecs"
      and aWriteFn = "0" and aUserData = "None" and out = "[7]"]
  using mode_gating [where self = "triangle_context" and h = "sample_h" and cs = "sample_codecs"
      and aReadFn = "0" and aUserData = "None" and mallocs = "[True]" and inp = "[7]"]
  by (simp add: context_with_map_def triangle_context_def new_context_def)

text \<open>
  C2. On a context that is not null, \<^verbatim>\<open>ctmError\<close> returns the error held in the register and
  resets the register, so that a second call right after returns \<open>CTM_NO_ERROR\<close>. The
  register holds one error: a failing call made while an error \<open>pending\<close> is still unread
  replaces it (shown for a call in the wrong mode and for a query with an unknown
  identifier), and the next \<^verbatim>\<open>ctmError\<close> returns the later error.
\<close>

theorem error_register_read_once:
  "ctmError (Some self) = (mError self, Some (self\<lparr>mError := CTM_NO_ERROR\<rparr>))
   \<and> ctmError (snd (ctmError (Some self))) = (CTM_NO_ERROR, Some (self\<lparr>mError := CTM_NO_ERROR\<rparr>))
   \<and> (mMode self \<noteq> CTM_EXPORT \<longrightarrow>
        ctmError (ctmCompressionMethod (Some (self\<lparr>mError := pending\<rparr>)) aMethod)
          = (CTM_INVALID_OPERATION, Some (self\<lparr>mError := CTM_NO_ERROR\<rparr>)))
   \<and> (aProperty \<noteq> CTM_INDICES h \<longrightarrow>
        ctmError (snd (ctmGetIntegerArray h (Some (self\<lparr>mError := pending\<rparr>)) aProperty))
          = (CTM_INVALID_ARGUMENT, Some (self\<lparr>mError := CTM_NO_ERROR\<rparr>)))"
  by (simp add: ctmError_def ctmCompressionMethod_def ctmGetIntegerArray_def)

theorem error_register_read_once_witness:
  "mMode (new_context CTM_IMPORT) \<noteq> CTM_EXPORT
   \<and> 0x0602 \<noteq> CTM_INDICES sample_h
   \<and> ctmError (Some ((new_context CTM_IMPORT)\<lparr>mError := CTM_FILE_ERROR\<rparr>))
        = (CTM_FILE_ERROR, Some (new_context CTM_IMPORT))
   \<and> ctmError (ctmCompressionMethod
          (Some ((new_context CTM_IMPORT)\<lparr>mError := CTM_FILE_ERROR\<rparr>)) CTM_METHOD_RAW)
        = (CTM_INVALID_OPERATION, Some (new_context CTM_IMPORT))
   \<and> ctmError (snd (ctmGetIntegerArray sample_h
          (Some ((new_context CTM_IMPORT)\<lparr>mError := CTM_FILE_ERROR\<rparr>)) 0x0602))
        = (CTM_INVALID_ARGUMENT, Some (new_context CTM_IMPORT))"
  using error_register_read_once [of "(new_context CTM_IMPORT)\<lparr>mError := CTM_FILE_ERROR\<rparr>"
      CTM_FILE_ERROR CTM_METHOD_RAW "0x0602" sample_h]
  by (simp add: new_context_def sample_h_def)

section \<open>The null handle\<close>

text \<open>
  C10, as the code has it. With the null handle, \<^verbatim>\<open>ctmGetInteger\<close> returns 0,
  \<^verbatim>\<open>ctmGetFloatArray\<close>, \<^verbatim>\<open>ctmGetIntegerArray\<close> and \<^verbatim>\<open>ctmGetString\<close> return null, and \<^verbatim>\<open>ctmError\<close>
  returns the error code \<open>CTM_INVALID_CONTEXT\<close>; \<^verbatim>\<open>ctmCompressionMethod\<close>, \<^verbatim>\<open>ctmVertexPrecision\<close>,
  \<^verbatim>\<open>ctmVertexPrecisionRel\<close>, \<^verbatim>\<open>ctmFileComment\<close>, \<^verbatim>\<open>ctmDefineMesh\<close>, \<^verbatim>\<open>ctmLoadCustom\<close>,
  \<^verbatim>\<open>ctmSaveCustom\<close> and \<^verbatim>\<open>ctmFreeContext\<close> return without effect: there is no context, nothing
  is read from the input and nothing is written to the output.
\<close>

theorem null_handle_tolerated:
  "ctmGetInteger h None aProperty = (0, None)
   \<and> ctmGetFloatArray h None aProperty = (None, None)
   \<and> ctmGetIntegerArray h None aProperty = (None, None)
   \<and> ctmGetString h None aProperty = (None, None)
   \<and> ctmError None = (CTM_INVALID_CONTEXT, None)
   \<and> ctmCompressionMethod None aMethod = None
   \<and> ctmVertexPrecision None aPrecision = None
   \<and> ctmVertexPrecisionRel None aRelPrecision = Some None
   \<and> ctmFileComment None aFileComment malloc_ok = None
   \<and> ctmDefineMesh None aVertices aVertexCount aIndices aTriangleCount aNormals = Some None
   \<and> ctmLoadCustom h cs None aReadFn aUserData mallocs inp = Some (None, inp)
   \<and> ctmSaveCustom h cs None aWriteFn aUserData out = (None, out)
   \<and> ctmFreeContext None = Some ()"
  by (simp add: ctmGetInteger_def ctmGetFloatArray_def ctmGetIntegerArray_def ctmGetString_def
      ctmError_def ctmCompressionMethod_def ctmVertexPrecision_def ctmVertexPrecisionRel_def
      ctmFileComment_def ctmDefineMesh_def ctmLoadCustom_def ctmSaveCustom_def ctmFreeContext_def)

text \<open>
  C10 as stated fails for \<^verbatim>\<open>ctmError\<close>: with the null handle it returns \<open>CTM_INVALID_CONTEXT\<close>,
  an error code, not the value that stands for no error.
\<close>

theorem null_handle_ctmError_counterexample:
  "fst (ctmError None) = CTM_INVALID_CONTEXT \<and> fst (ctmError None) \<noteq> CTM_NO_ERROR"
  by (simp add: ctmError_def)

section \<open>Attaching maps\<close>

lemma add_map_is_silent:
  "ctmAddTexMap h aContext aTexCoords aName = (CTM_NONE h, aContext)
   \<and> ctmAddAttribMap h aContext aAttribValues aName = (CTM_NONE h, aContext)"
  by (simp add: ctmAddTexMap_def ctmAddAttribMap_def)

text \<open>
  C9 fails on the code. On a new export context, \<^verbatim>\<open>ctmAddTexMap\<close> and \<^verbatim>\<open>ctmAddAttribMap\<close> return
  \<open>CTM_NONE\<close> and leave the context as it was: the error register still holds \<open>CTM_NO_ERROR\<close>,
  both map lists are empty and both counts are 0. The identifier returned is of no use:
  \<^verbatim>\<open>ctmGetFloatArray\<close> rejects it with \<open>CTM_INVALID_ARGUMENT\<close>.
\<close>

theorem add_map_on_new_context:
  "ctmAddTexMap sample_h (ctmNewContext CTM_EXPORT) (Some [0, 0, 1, 0, 0, 1]) None
     = (CTM_NONE sample_h, Some (new_context CTM_EXPORT))
   \<and> ctmAddAttribMap sample_h (ctmNewContext CTM_EXPORT) (Some [0, 0, 1, 0, 0, 1]) None
     = (CTM_NONE sample_h, Some (new_context CTM_EXPORT))
   \<and> mError (new_context CTM_EXPORT) = CTM_NO_ERROR
   \<and> mTexMaps (new_context CTM_EXPORT) = [] \<and> mTexMapCount (new_context CTM_EXPORT) = 0
   \<and> mAttribMaps (new_context CTM_EXPORT) = [] \<and> mAttribMapCount (new_context CTM_EXPORT) = 0
   \<and> ctmGetFloatArray sample_h (Some (new_context CTM_EXPORT)) (CTM_NONE sample_h)
     = (None, Some ((new_context CTM_EXPORT)\<lparr>mError := CTM_INVALID_ARGUMENT\<rparr>))"
  by (simp add: add_map_is_silent ctmNewContext_new_context new_context_def
      ctmGetFloatArray_def sample_h_def)

section \<open>Defining a mesh\<close>

text \<open>
  C5, as the code has it. On a context in export mode, \<^verbatim>\<open>ctmDefineMesh\<close> with a null vertex
  array, a null index array, a vertex count of 0 or a triangle count of 0 sets
  \<open>CTM_INVALID_ARGUMENT\<close> and changes nothing else: no mesh is attached and the mesh that was
  attached before stays attached. With valid arguments, on a context whose map lists are
  empty, it replaces the mesh by the arrays and counts supplied (the normals may be null)
  and sets both map counts to 0.
\<close>

theorem define_mesh_validation:
  "mMode self = CTM_EXPORT \<Longrightarrow>
     (aVertices = None \<or> aIndices = None \<or> aVertexCount = 0 \<or> aTriangleCount = 0 \<longrightarrow>
        ctmDefineMesh (Some self) aVertices aVertexCount aIndices aTriangleCount aNormals
          = Some (Some (self\<lparr>mError := CTM_INVALID_ARGUMENT\<rparr>)))
     \<and> (aVertices \<noteq> None \<and> aIndices \<noteq> None \<and> aVertexCount \<noteq> 0 \<and> aTriangleCount \<noteq> 0
          \<and> mTexMaps self = [] \<and> mAttribMaps self = [] \<longrightarrow>
        ctmDefineMesh (Some self) aVertices aVertexCount aIndices aTriangleCount aNormals
          = Some (Some (self\<lparr>mVertices := aVertices, mVertexCount := aVertexCount,
                              mIndices := aIndices, mTriangleCount := aTriangleCount,
                              mNormals := aNormals, mTexMapCount := 0, mAttribMapCount := 0\<rparr>)))"
  by (auto simp add: ctmDefineMesh_def u_ctmClearMesh_eq)

theorem define_mesh_validation_witness:
  "mMode triangle_context = CTM_EXPORT
   \<and> ctmDefineMesh (Some triangle_context) (Some [0, 0, 0]) 0 (Some [0, 0, 0]) 1 None
       = Some (Some (triangle_context\<lparr>mError := CTM_INVALID_ARGUMENT\<rparr>))
   \<and> ctmDefineMesh (Some triangle_context) (Some [5, 5, 5]) 1 (Some [0, 0, 0]) 1 (Some [0, 0, 1])
       = Some (Some (triangle_context\<lparr>mVertices := Some [5, 5, 5], mVertexCount := 1,
                              mIndices := Some [0, 0, 0], mTriangleCount := 1,
                              mNormals := Some [0, 0, 1]\<rparr>))"
  using define_mesh_validation [where self = "triangle_context" and aVertices = "Some [0, 0, 0]"
      and aVertexCount = "0" and aIndices = "Some [0, 0, 0]" and aTriangleCount = "1"
      and aNormals = "None"]
    define_mesh_validation [where self = "triangle_context" and aVertices = "Some [5, 5, 5]"
      and aVertexCount = "1" and aIndices = "Some [0, 0, 0]" and aTriangleCount = "1"
      and aNormals = "Some [0, 0, 1]"]
  by (simp add: triangle_context_def new_context_def)

text \<open>
  C5 as stated fails: after a call with invalid arguments (here a null vertex array and a
  null index array) the mesh defined before is still attached, not cleared.
\<close>

theorem define_mesh_invalid_counterexample:
  "ctmDefineMesh (Some triangle_context) None 0 None 0 None
     = Some (Some (triangle_context\<lparr>mError := CTM_INVALID_ARGUMENT\<rparr>))
   \<and> mVertices (triangle_context\<lparr>mError := CTM_INVALID_ARGUMENT\<rparr>)
       = Some [0, 0, 0, 1, 0, 0, 0, 1, 0]
   \<and> mIndices (triangle_context\<lparr>mError := CTM_INVALID_ARGUMENT\<rparr>) = Some [0, 1, 2]
   \<and> mVertexCount (triangle_context\<lparr>mError := CTM_INVALID_ARGUMENT\<rparr>) = 3
   \<and> mTriangleCount (triangle_context\<lparr>mError := CTM_INVALID_ARGUMENT\<rparr>) = 1"
  by (simp add: ctmDefineMesh_def triangle_context_def new_context_def)

text \<open>
  With a map in one of the lists, the call with valid arguments does not return
  (\<^verbatim>\<open>_ctmFreeMapList\<close>).
\<close>

lemma define_mesh_with_map_attached:
  "ctmDefineMesh (Some (context_with_map CTM_EXPORT)) (Some [5, 5, 5]) 1 (Some [0, 0, 0]) 1 None
     = None"
  by (simp add: ctmDefineMesh_def u_ctmClearMesh_eq context_with_map_def new_context_def)

section \<open>Saving\<close>

text \<open>
  C3. On a context in export mode whose vertex array or index array is null or whose vertex
  count or triangle count is 0, \<^verbatim>\<open>ctmSaveCustom\<close> sets \<open>CTM_INVALID_MESH\<close> and writes nothing. On a
  context in export mode with a mesh it binds the write callback and appends to the output,
  in this order: the magic token, the format version, the tag of the selected method
  (\<open>str_RAW\<close>, \<open>str_MG1\<close> or \<open>str_MG2\<close>), the vertex count, the triangle count, the texture-map
  count, the attribute-map count, the flags (1 when the normals are present, 0 otherwise, so
  that bit 0 says whether they are), the length of the comment and the comment; then it
  calls the codec writer of the selected method on the context and the output so written.
\<close>

theorem save_header_layout:
  "mMode self = CTM_EXPORT \<Longrightarrow>
     (mVertices self = None \<or> mIndices self = None \<or> mVertexCount self = 0
        \<or> mTriangleCount self = 0 \<longrightarrow>
        ctmSaveCustom h cs (Some self) aWriteFn aUserData out
          = (Some (self\<lparr>mError := CTM_INVALID_MESH\<rparr>), out))
     \<and> (mVertices self \<noteq> None \<and> mIndices self \<noteq> None \<and> mVertexCount self \<noteq> 0
          \<and> mTriangleCount self \<noteq> 0 \<longrightarrow>
        (let self1 = self\<lparr>mWriteFn := Some aWriteFn, mUserData := aUserData\<rparr>;
             header = (\<lambda>tag. out @ str_OCTM @ uint_bytes (u_CTM_FORMAT_VERSION h) @ tag
                        @ uint_bytes (mVertexCount self) @ uint_bytes (mTriangleCount self)
                        @ uint_bytes (mTexMapCount self) @ uint_bytes (mAttribMapCount self)
                        @ uint_bytes (if mNormals self \<noteq> None then 1 else 0)
                        @ (case mFileComment self of
                             None \<Rightarrow> uint_bytes 0
                           | Some str \<Rightarrow> uint_bytes (word_of_nat (length str)) @ str))
         in (mMethod self = CTM_METHOD_RAW \<longrightarrow>
               ctmSaveCustom h cs (Some self) aWriteFn aUserData out
                 = apfst Some (u_ctmCompressMesh_RAW cs (self1, header str_RAW)))
          \<and> (mMethod self = CTM_METHOD_MG1 \<longrightarrow>
               ctmSaveCustom h cs (Some self) aWriteFn aUserData out
                 = apfst Some (u_ctmCompressMesh_MG1 cs (self1, header str_MG1)))
          \<and> (mMethod self = CTM_METHOD_MG2 \<longrightarrow>
               ctmSaveCustom h cs (Some self) aWriteFn aUserData out
                 = apfst Some (u_ctmCompressMesh_MG2 cs (self1, header str_MG2)))))"
  by (auto simp add: ctmSaveCustom_def Let_def word_less_1 u_ctmStreamWrite_def
      u_ctmStreamWriteUINT_def u_ctmStreamWriteSTRING_def u_CTM_HAS_NORMALS_BIT_def
      split: option.splits)

theorem save_header_layout_witness:
  "mMode triangle_context = CTM_EXPORT
   \<and> ctmSaveCustom sample_h sample_codecs (Some (new_context CTM_EXPORT)) 5 (Some 9) []
       = (Some ((new_context CTM_EXPORT)\<lparr>mError := CTM_INVALID_MESH\<rparr>), [])
   \<and> ctmSaveCustom sample_h sample_codecs (Some triangle_context) 5 (Some 9) []
       = (Some (triangle_context\<lparr>mWriteFn := Some 5, mUserData := Some 9\<rparr>),
          [0x4F, 0x43, 0x54, 0x4D, 1, 0, 0, 0, 0x4D, 0x47, 0x31, 0, 3, 0, 0, 0, 1, 0, 0, 0,
           0, 0, 0, 0, 0, 0, 0, 0, 0, 0, 0, 0, 0, 0, 0, 0])
   \<and> ctmSaveCustom sample_h sample_codecs
         (Some (triangle_context\<lparr>mMethod := CTM_METHOD_RAW, mNormals := Some [0, 0, 1, 0, 0, 1, 0, 0, 1],
                                  mFileComment := Some [0x68, 0x69]\<rparr>)) 5 (Some 9) []
       = (Some (triangle_context\<lparr>mMethod := CTM_METHOD_RAW,
                                  mNormals := Some [0, 0, 1, 0, 0, 1, 0, 0, 1],
                                  mFileComment := Some [0x68, 0x69],
                                  mWriteFn := Some 5, mUserData := Some 9\<rparr>),
          [0x4F, 0x43, 0x54, 0x4D, 1, 0, 0, 0, 0x52, 0x41, 0x57, 0, 3, 0, 0, 0, 1, 0, 0, 0,
           0, 0, 0, 0, 0, 0, 0, 0, 1, 0, 0, 0, 2, 0, 0, 0, 0x68, 0x69])
   \<and> ctmSaveCustom sample_h sample_codecs
         (Some (triangle_context\<lparr>mMethod := CTM_METHOD_MG2\<rparr>)) 5 (Some 9) []
       = (Some (triangle_context\<lparr>mMethod := CTM_METHOD_MG2, mWriteFn := Some 5,
                                  mUserData := Some 9\<rparr>),
          [0x4F, 0x43, 0x54, 0x4D, 1, 0, 0, 0, 0x4D, 0x47, 0x32, 0, 3, 0, 0, 0, 1, 0, 0, 0,
           0, 0, 0, 0, 0, 0, 0, 0, 0, 0, 0, 0, 0, 0, 0, 0])"
  using save_header_layout [where self = "new_context CTM_EXPORT" and h = "sample_h"
      and cs = "sample_codecs" and aWriteFn = "5" and aUserData = "Some 9" and out = "[]"]
    save_header_layout [where self = "triangle_context" and h = "sample_h"
      and cs = "sample_codecs" and aWriteFn = "5" and aUserData = "Some 9" and out = "[]"]
    save_header_layout [where self = "triangle_context\<lparr>mMethod := CTM_METHOD_RAW,
        mNormals := Some [0, 0, 1, 0, 0, 1, 0, 0, 1], mFileComment := Some [0x68, 0x69]\<rparr>"
      and h = "sample_h" and cs = "sample_codecs" and aWriteFn = "5" and aUserData = "Some 9"
      and out = "[]"]
    save_header_layout [where self = "triangle_context\<lparr>mMethod := CTM_METHOD_MG2\<rparr>"
      and h = "sample_h" and cs = "sample_codecs" and aWriteFn = "5" and aUserData = "Some 9"
      and out = "[]"]
  by (simp add: triangle_context_def new_context_def sample_h_def sample_codecs_def
      uint_bytes_def str_bytes)

text \<open>
  The calls of this file keep the method among the three constants: \<^verbatim>\<open>ctmNewContext\<close> sets
  \<open>CTM_METHOD_MG1\<close> and \<^verbatim>\<open>ctmCompressionMethod\<close> stores no other value.
\<close>

lemma ctmCompressionMethod_known:
  "mMethod self \<noteq> CTM_METHOD_UNKNOWN \<Longrightarrow> ctmCompressionMethod (Some self) aMethod = Some self'
     \<Longrightarrow> mMethod self' \<noteq> CTM_METHOD_UNKNOWN"
  by (cases aMethod) (auto simp add: ctmCompressionMethod_def split: if_splits)

section \<open>Loading\<close>






lemma load_format_error_no_arrays:
  "mVertices ((cleared_for_load self aReadFn aUserData)
       \<lparr>mMethod := meth, mVertexCount := vc, mError := CTM_FORMAT_ERROR\<rparr>) = None
   \<and> mIndices ((cleared_for_load self aReadFn aUserData)
       \<lparr>mMethod := meth, mVertexCount := vc, mError := CTM_FORMAT_ERROR\<rparr>) = None
   \<and> mNormals ((cleared_for_load self aReadFn aUserData)
       \<lparr>mMethod := meth, mVertexCount := vc, mError := CTM_FORMAT_ERROR\<rparr>) = None"
  by (simp add: cleared_for_load_def)

text \<open>
  C4 fails on the code. On a context in import mode that has a map in its texture-map list,
  \<^verbatim>\<open>ctmLoadCustom\<close> on a stream that does not start with the magic token does not return:
  \<^verbatim>\<open>_ctmClearMesh\<close> calls \<^verbatim>\<open>_ctmFreeMapList\<close>, whose loop never leaves the first node. The same call
  on the context without the map returns with \<open>CTM_FORMAT_ERROR\<close>, as the claim says.
\<close>

theorem load_with_map_attached_never_returns:
  "ctmLoadCustom sample_h sample_codecs (Some (context_with_map CTM_IMPORT)) 0 None
       [True, True, True] [0x58, 0x58, 0x58, 0x58] = None
   \<and> ctmLoadCustom sample_h sample_codecs (Some (new_context CTM_IMPORT)) 0 None
       [True, True, True] [0x58, 0x58, 0x58, 0x58]
     = Some (Some ((new_context CTM_IMPORT)\<lparr>mReadFn := Some 0, mError := CTM_FORMAT_ERROR\<rparr>), [])"
  by (simp add: ctmLoadCustom_def u_ctmClearMesh_eq context_with_map_def new_context_def
      ctmLoadCustom_header_def u_ctmStreamReadUINT_def u_ctmStreamRead_def bytes_uint_def
      byte_at_def FOURCC_def str_OCTM_def)

section \<open>What a failing call leaves behind\<close>




section \<open>Map identifiers\<close>

lemma unat_word_of_nat: "k < 2 ^ 32 \<Longrightarrow> unat (word_of_nat k :: CTMuint) = k"
  by (simp add: unat_of_nat)

lemma word_of_nat_neq_0: "0 < k \<Longrightarrow> k < 2 ^ 32 \<Longrightarrow> (word_of_nat k :: CTMuint) \<noteq> 0"
  using unat_word_of_nat [of k] by (auto simp add: unat_eq_0 [symmetric] simp del: unat_eq_0)

text \<open>The walk stops at node \<open>k\<close> when it looks for the identifier \<open>k\<close> places after its start.\<close>

lemma map_walk_drop:
  "k < length ms \<Longrightarrow> k < 2 ^ 32 \<Longrightarrow> map_walk ms i (i + word_of_nat k) = drop k ms"
proof (induction ms arbitrary: i k)
  case Nil
  then show ?case by simp
next
  case (Cons m ms)
  show ?case
  proof (cases k)
    case 0
    then show ?thesis by simp
  next
    case (Suc k')
    with Cons.prems have "(word_of_nat k :: CTMuint) \<noteq> 0"
      by (intro word_of_nat_neq_0) simp_all
    then have ne: "i \<noteq> i + word_of_nat k"
      by simp
    have eq: "i + word_of_nat k = (i + 1) + word_of_nat k'"
      using Suc by simp
    have "map_walk (m # ms) i (i + word_of_nat k) = map_walk ms (i + 1) (i + word_of_nat k)"
      using ne by simp
    also have "\<dots> = map_walk ms (i + 1) ((i + 1) + word_of_nat k')"
      by (simp only: eq)
    also have "\<dots> = drop k' ms"
      using Cons.prems Suc by (intro Cons.IH) simp_all
    also have "\<dots> = drop k (m # ms)"
      using Suc by simp
    finally show ?thesis .
  qed
qed

lemma map_walk_hit:
  assumes "k < length ms" "k < 2 ^ 32"
  shows "map_walk ms i (i + word_of_nat k) = ms ! k # drop (Suc k) ms"
  using map_walk_drop [OF assms] assms(1) by (simp add: Cons_nth_drop_Suc)

lemma id_in_range:
  assumes "k < unat (count :: CTMuint)" "unat (base :: CTMuint) + k < 2 ^ 32"
  shows "base \<le> base + word_of_nat k \<and> (base + word_of_nat k) - base < count"
proof -
  have k: "unat (word_of_nat k :: CTMuint) = k"
    using assms(2) by (simp add: unat_word_of_nat)
  then have "unat (base + word_of_nat k) = unat base + k"
    using assms(2) by (simp add: unat_add_lem [THEN iffD1])
  then have "base \<le> base + word_of_nat k"
    by (simp add: word_le_nat_alt)
  moreover have "(word_of_nat k :: CTMuint) < count"
    using assms(1) k by (simp add: word_less_nat_alt)
  ultimately show ?thesis by simp
qed

lemma base_plus_count_outside:
  "\<not> ((base :: CTMuint) \<le> base + count \<and> (base + count) - base < count)"
  by simp

lemma base_minus_1_outside:
  "\<not> ((base :: CTMuint) \<le> base - 1 \<and> (base - 1) - base < count)"
proof (cases "base = 0")
  case True
  have "\<not> (- 1 :: CTMuint) < count"
    by (simp add: not_less)
  with True show ?thesis by simp
next
  case False
  then have "unat (base - 1) = unat base - 1" "unat base \<noteq> 0"
    by (simp_all add: unat_minus_one unat_eq_0)
  then have "base - 1 < base"
    by (simp add: word_less_nat_alt)
  then show ?thesis by simp
qed

text \<open>
  C7, as the code has it. Let the context hold as many texture maps, and as many attribute
  maps, as its two counts say. The identifier \<open>k\<close> places after \<open>CTM_TEX_MAP_1\<close>, for \<open>k\<close> below
  the number of texture maps, gives the values of entry \<open>k\<close> of the texture-map list
  (counted from 0, in list order) and sets no error. The same holds for the attribute maps
  and \<open>CTM_ATTRIB_MAP_1\<close>, unless the identifier also lies in the range of the texture maps,
  which is tested first. An identifier that lies in neither range and is neither
  \<open>CTM_VERTICES\<close> nor \<open>CTM_NORMALS\<close> gives null and sets \<open>CTM_INVALID_ARGUMENT\<close>. The identifier
  right after the last map of a list and the one right before its base are never in the
  range of that list. (The identifiers are taken not to wrap around \<open>2\<^sup>3\<^sup>2\<close>.)
\<close>

theorem map_index_dispatch:
  assumes "length (mTexMaps self) = unat (mTexMapCount self)"
    and "length (mAttribMaps self) = unat (mAttribMapCount self)"
  shows
    "(k < length (mTexMaps self) \<and> unat (CTM_TEX_MAP_1 h) + k < 2 ^ 32 \<longrightarrow>
        ctmGetFloatArray h (Some self) (CTM_TEX_MAP_1 h + word_of_nat k)
          = (mValues (mTexMaps self ! k), Some self))
     \<and> (k < length (mAttribMaps self) \<and> unat (CTM_ATTRIB_MAP_1 h) + k < 2 ^ 32
          \<and> \<not> is_tex_map_id h self (CTM_ATTRIB_MAP_1 h + word_of_nat k) \<longrightarrow>
        ctmGetFloatArray h (Some self) (CTM_ATTRIB_MAP_1 h + word_of_nat k)
          = (mValues (mAttribMaps self ! k), Some self))
     \<and> (\<not> is_tex_map_id h self aProperty \<and> \<not> is_attrib_map_id h self aProperty
          \<and> aProperty \<noteq> CTM_VERTICES h \<and> aProperty \<noteq> CTM_NORMALS h \<longrightarrow>
        ctmGetFloatArray h (Some self) aProperty
          = (None, Some (self\<lparr>mError := CTM_INVALID_ARGUMENT\<rparr>)))
     \<and> \<not> is_tex_map_id h self (CTM_TEX_MAP_1 h + word_of_nat (length (mTexMaps self)))
     \<and> \<not> is_tex_map_id h self (CTM_TEX_MAP_1 h - 1)
     \<and> \<not> is_attrib_map_id h self (CTM_ATTRIB_MAP_1 h + word_of_nat (length (mAttribMaps self)))
     \<and> \<not> is_attrib_map_id h self (CTM_ATTRIB_MAP_1 h - 1)"
proof (intro conjI impI)
  assume k: "k < length (mTexMaps self) \<and> unat (CTM_TEX_MAP_1 h) + k < 2 ^ 32"
  then have "k < unat (mTexMapCount self)"
    using assms(1) by simp
  with id_in_range [where base = "CTM_TEX_MAP_1 h" and count = "mTexMapCount self" and k = k] k
  have range: "CTM_TEX_MAP_1 h \<le> CTM_TEX_MAP_1 h + word_of_nat k"
    "CTM_TEX_MAP_1 h + word_of_nat k - CTM_TEX_MAP_1 h < mTexMapCount self"
    by simp_all
  from k have "k < 2 ^ 32" by simp
  with k have "map_walk (mTexMaps self) (CTM_TEX_MAP_1 h) (CTM_TEX_MAP_1 h + word_of_nat k)
      = mTexMaps self ! k # drop (Suc k) (mTexMaps self)"
    by (intro map_walk_hit) simp_all
  with range show "ctmGetFloatArray h (Some self) (CTM_TEX_MAP_1 h + word_of_nat k)
      = (mValues (mTexMaps self ! k), Some self)"
    by (simp add: ctmGetFloatArray_def)
next
  assume k: "k < length (mAttribMaps self) \<and> unat (CTM_ATTRIB_MAP_1 h) + k < 2 ^ 32
      \<and> \<not> is_tex_map_id h self (CTM_ATTRIB_MAP_1 h + word_of_nat k)"
  then have "k < unat (mAttribMapCount self)"
    using assms(2) by simp
  with id_in_range [where base = "CTM_ATTRIB_MAP_1 h" and count = "mAttribMapCount self"
      and k = k] k
  have range: "CTM_ATTRIB_MAP_1 h \<le> CTM_ATTRIB_MAP_1 h + word_of_nat k"
    "CTM_ATTRIB_MAP_1 h + word_of_nat k - CTM_ATTRIB_MAP_1 h < mAttribMapCount self"
    by simp_all
  from k have "k < 2 ^ 32" by simp
  with k have "map_walk (mAttribMaps self) (CTM_ATTRIB_MAP_1 h)
      (CTM_ATTRIB_MAP_1 h + word_of_nat k)
      = mAttribMaps self ! k # drop (Suc k) (mAttribMaps self)"
    by (intro map_walk_hit) simp_all
  with range k show "ctmGetFloatArray h (Some self) (CTM_ATTRIB_MAP_1 h + word_of_nat k)
      = (mValues (mAttribMaps self ! k), Some self)"
    by (auto simp add: ctmGetFloatArray_def is_tex_map_id_def)
next
  assume "\<not> is_tex_map_id h self aProperty \<and> \<not> is_attrib_map_id h self aProperty
      \<and> aProperty \<noteq> CTM_VERTICES h \<and> aProperty \<noteq> CTM_NORMALS h"
  then show "ctmGetFloatArray h (Some self) aProperty
      = (None, Some (self\<lparr>mError := CTM_INVALID_ARGUMENT\<rparr>))"
    by (auto simp add: ctmGetFloatArray_def is_tex_map_id_def is_attrib_map_id_def)
next
  show "\<not> is_tex_map_id h self (CTM_TEX_MAP_1 h + word_of_nat (length (mTexMaps self)))"
    using base_plus_count_outside [of "CTM_TEX_MAP_1 h" "mTexMapCount self"] assms(1)
    by (simp add: is_tex_map_id_def)
next
  show "\<not> is_tex_map_id h self (CTM_TEX_MAP_1 h - 1)"
    using base_minus_1_outside [of "CTM_TEX_MAP_1 h" "mTexMapCount self"]
    by (simp add: is_tex_map_id_def)
next
  show "\<not> is_attrib_map_id h self
      (CTM_ATTRIB_MAP_1 h + word_of_nat (length (mAttribMaps self)))"
    using base_plus_count_outside [of "CTM_ATTRIB_MAP_1 h" "mAttribMapCount self"] assms(2)
    by (simp add: is_attrib_map_id_def)
next
  show "\<not> is_attrib_map_id h self (CTM_ATTRIB_MAP_1 h - 1)"
    using base_minus_1_outside [of "CTM_ATTRIB_MAP_1 h" "mAttribMapCount self"]
    by (simp add: is_attrib_map_id_def)
qed

theorem map_index_dispatch_witness:
  "length (mTexMaps two_maps_context) = unat (mTexMapCount two_maps_context)
   \<and> length (mAttribMaps two_maps_context) = unat (mAttribMapCount two_maps_context)
   \<and> ctmGetFloatArray sample_h (Some two_maps_context) 0x0701 = (Some [5, 5], Some two_maps_context)
   \<and> ctmGetFloatArray sample_h (Some two_maps_context) 0x0800
       = (Some [7, 7, 7], Some two_maps_context)
   \<and> ctmGetFloatArray sample_h (Some two_maps_context) 0x0702
       = (None, Some (two_maps_context\<lparr>mError := CTM_INVALID_ARGUMENT\<rparr>))
   \<and> ctmGetFloatArray sample_h (Some two_maps_context) 0x06FF
       = (None, Some (two_maps_context\<lparr>mError := CTM_INVALID_ARGUMENT\<rparr>))"
proof -
  have len: "length (mTexMaps two_maps_context) = unat (mTexMapCount two_maps_context)"
    "length (mAttribMaps two_maps_context) = unat (mAttribMapCount two_maps_context)"
    by (simp_all add: two_maps_context_def)
  note inst = map_index_dispatch [OF len, where h = "sample_h"]
  show ?thesis
    using len inst [where k = "1" and aProperty = "0x0702"]
      inst [where k = "0" and aProperty = "0x06FF"]
    by (simp add: two_maps_context_def sample_h_def is_tex_map_id_def is_attrib_map_id_def
        new_context_def)
qed

text \<open>
  C7 as stated fails where the two ranges meet. With the sample identifiers the attribute
  maps start 256 places after the texture maps: on a context with 256 texture maps and one
  attribute map, the identifier right after the last texture map is the one of the first
  attribute map, and \<^verbatim>\<open>ctmGetFloatArray\<close> returns that map's values and sets no error.
\<close>

theorem map_index_collision_counterexample:
  "length (mTexMaps crowded_context) = 256 \<and> mTexMapCount crowded_context = 256
   \<and> length (mAttribMaps crowded_context) = 1 \<and> mAttribMapCount crowded_context = 1
   \<and> CTM_TEX_MAP_1 sample_h + 256 = CTM_ATTRIB_MAP_1 sample_h
   \<and> ctmGetFloatArray sample_h (Some crowded_context) (CTM_TEX_MAP_1 sample_h + 256)
       = (Some [7, 7, 7], Some crowded_context)
   \<and> ctmGetFloatArray sample_h (Some crowded_context) (CTM_TEX_MAP_1 sample_h + 256)
       \<noteq> (None, Some (crowded_context\<lparr>mError := CTM_INVALID_ARGUMENT\<rparr>))"
  by (simp add: crowded_context_def sample_h_def ctmGetFloatArray_def new_context_def)

text \<open>
  The sample identifiers are not what makes the ranges meet. Whatever the two base
  identifiers are, some context that holds as many maps as its counts say gets, for an
  identifier of an attribute map, something else than that map's values, or gets an array
  for the identifier right after the last map of a list.
\<close>

lemma map_ranges_meet:
  "\<exists>self. length (mTexMaps self) = unat (mTexMapCount self)
     \<and> length (mAttribMaps self) = unat (mAttribMapCount self)
     \<and> ((\<exists>k. k < length (mAttribMaps self)
             \<and> fst (ctmGetFloatArray h (Some self) (CTM_ATTRIB_MAP_1 h + word_of_nat k))
                 \<noteq> mValues (mAttribMaps self ! k))
        \<or> fst (ctmGetFloatArray h (Some self)
               (CTM_ATTRIB_MAP_1 h + word_of_nat (length (mAttribMaps self)))) \<noteq> None
        \<or> fst (ctmGetFloatArray h (Some self)
               (CTM_TEX_MAP_1 h + word_of_nat (length (mTexMaps self)))) \<noteq> None)"
proof -
  let ?other = "\<lparr>mName = None, mValues = Some [7, 7, 7]\<rparr>"
  consider (below) "CTM_TEX_MAP_1 h < CTM_ATTRIB_MAP_1 h"
    | (above) "CTM_ATTRIB_MAP_1 h < CTM_TEX_MAP_1 h"
    | (same) "CTM_TEX_MAP_1 h = CTM_ATTRIB_MAP_1 h"
    by (metis linorder_less_linear)
  then show ?thesis
  proof cases
    case below
    let ?d = "CTM_ATTRIB_MAP_1 h - CTM_TEX_MAP_1 h"
    let ?self = "(new_context CTM_IMPORT)\<lparr>mTexMaps := replicate (unat ?d) sample_map,
        mTexMapCount := ?d, mAttribMaps := [?other], mAttribMapCount := 1\<rparr>"
    have "fst (ctmGetFloatArray h (Some ?self)
        (CTM_TEX_MAP_1 h + word_of_nat (length (mTexMaps ?self)))) \<noteq> None"
      by (simp add: ctmGetFloatArray_def)
    moreover have "length (mTexMaps ?self) = unat (mTexMapCount ?self)"
      "length (mAttribMaps ?self) = unat (mAttribMapCount ?self)"
      by simp_all
    ultimately show ?thesis by blast
  next
    case above
    let ?d = "CTM_TEX_MAP_1 h - CTM_ATTRIB_MAP_1 h"
    let ?self = "(new_context CTM_IMPORT)\<lparr>mTexMaps := [sample_map], mTexMapCount := 1,
        mAttribMaps := replicate (unat ?d) ?other, mAttribMapCount := ?d\<rparr>"
    have "fst (ctmGetFloatArray h (Some ?self)
        (CTM_ATTRIB_MAP_1 h + word_of_nat (length (mAttribMaps ?self)))) \<noteq> None"
      by (simp add: ctmGetFloatArray_def sample_map_def)
    moreover have "length (mTexMaps ?self) = unat (mTexMapCount ?self)"
      "length (mAttribMaps ?self) = unat (mAttribMapCount ?self)"
      by simp_all
    ultimately show ?thesis by blast
  next
    case same
    let ?self = "(new_context CTM_IMPORT)\<lparr>mTexMaps := [sample_map], mTexMapCount := 1,
        mAttribMaps := [?other], mAttribMapCount := 1\<rparr>"
    have "0 < length (mAttribMaps ?self)
        \<and> fst (ctmGetFloatArray h (Some ?self) (CTM_ATTRIB_MAP_1 h + word_of_nat 0))
          \<noteq> mValues (mAttribMaps ?self ! 0)"
      using same by (simp add: ctmGetFloatArray_def sample_map_def)
    moreover have "length (mTexMaps ?self) = unat (mTexMapCount ?self)"
      "length (mAttribMaps ?self) = unat (mAttribMapCount ?self)"
      by simp_all
    ultimately show ?thesis by blast
  qed
qed

section \<open>Relative precision, in exact arithmetic\<close>

text \<open>
  C6 is about the result of floating-point arithmetic (\<^verbatim>\<open>sqrt\<close>, the sum kept in a \<^verbatim>\<open>CTMfloat\<close>,
  the division), which this model does not have: it computes in the real numbers. What
  follows holds in exact arithmetic and says nothing about rounding. With no triangle the
  call sets \<open>CTM_INVALID_MESH\<close>; a call that returns changes at most the precision and the error
  register; on a well-formed mesh with at least one triangle the precision stored is the
  factor times the sum of all edge lengths divided by three times the triangle count; for
  the triangle with corners (1,0,0), (0,1,0), (0,0,1), whose sides have length \<open>sqrt 2\<close>, it is
  the factor times \<open>sqrt 2\<close>; an index beyond the vertex array makes the call read outside the
  array.
\<close>

lemma precision_rel_no_triangles:
  "mMode self = CTM_EXPORT \<Longrightarrow> 0 < aRelPrecision \<Longrightarrow> mTriangleCount self = 0 \<Longrightarrow>
     ctmVertexPrecisionRel (Some self) aRelPrecision = Some (Some (self\<lparr>mError := CTM_INVALID_MESH\<rparr>))"
  by (simp add: ctmVertexPrecisionRel_def triangle_loop.simps [of self 0])

lemma precision_rel_fields:
  "ctmVertexPrecisionRel (Some self) aRelPrecision = Some (Some self') \<Longrightarrow>
     self' = self\<lparr>mVertexPrecision := mVertexPrecision self', mError := mError self'\<rparr>"
  by (auto simp add: ctmVertexPrecisionRel_def split: if_splits option.splits prod.splits)

lemma precision_rel_equilateral:
  "0 < aRelPrecision \<Longrightarrow>
     ctmVertexPrecisionRel (Some equilateral_context) aRelPrecision
       = Some (Some (equilateral_context\<lparr>mVertexPrecision := aRelPrecision * sqrt 2\<rparr>))"
  by (simp add: ctmVertexPrecisionRel_def equilateral_context_def new_context_def
      triangle_loop.simps [of _ 0] triangle_loop.simps [of _ 1] edge_step_def edge_length_def
      array_read_def)

lemma precision_rel_out_of_range:
  "0 < aRelPrecision \<Longrightarrow>
     ctmVertexPrecisionRel (Some (triangle_context\<lparr>mIndices := Some [0, 1, 3]\<rparr>)) aRelPrecision
       = None"
  by (simp add: ctmVertexPrecisionRel_def triangle_context_def new_context_def
      triangle_loop.simps [of _ 0] triangle_loop.simps [of _ 1] edge_step_def edge_length_def
      array_read_def)

text \<open>The loop of \<^verbatim>\<open>ctmVertexPrecisionRel\<close> on a well-formed mesh.\<close>

lemma unat_index:
  assumes "i < (tc :: CTMuint)" "3 * unat tc < 2 ^ 32" "j < 3"
  shows "unat (i * 3 + word_of_nat j) = 3 * unat i + j"
proof -
  from assms(1) have lt: "unat i < unat tc"
    by (simp add: word_less_nat_alt)
  with assms have bound: "3 * unat i + j < 2 ^ 32"
    by simp
  have eq: "i * 3 + word_of_nat j = (word_of_nat (3 * unat i + j) :: CTMuint)"
    by (simp add: mult.commute)
  show ?thesis
    unfolding eq using bound by (rule unat_word_of_nat)
qed

lemma unat_offset:
  assumes "ix < (vc :: CTMuint)" "3 * unat vc < 2 ^ 32"
  shows "unat (ix * 3) = unat ix * 3"
proof -
  from assms(1) have "unat ix < unat vc"
    by (simp add: word_less_nat_alt)
  with assms(2) have bound: "unat ix * 3 < 2 ^ 32"
    by simp
  have eq: "ix * 3 = (word_of_nat (unat ix * 3) :: CTMuint)"
    by simp
  show ?thesis
    unfolding eq using bound by (rule unat_word_of_nat)
qed

lemma index_read:
  assumes wf: "well_formed_mesh self vs ixs" and i: "i < mTriangleCount self" and j: "j < 3"
  shows "array_read (mIndices self) (unat (i * 3 + word_of_nat j)) = Some (ixs ! (3 * unat i + j))"
    and "ixs ! (3 * unat i + j) < mVertexCount self"
proof -
  from wf have tc: "3 * unat (mTriangleCount self) < 2 ^ 32"
    and len: "length ixs = 3 * unat (mTriangleCount self)" and ixs: "mIndices self = Some ixs"
    and all: "list_all (\<lambda>ix. ix < mVertexCount self) ixs"
    by (simp_all add: well_formed_mesh_def)
  from i have "unat i < unat (mTriangleCount self)"
    by (simp add: word_less_nat_alt)
  with j len have k: "3 * unat i + j < length ixs"
    by simp
  with unat_index [OF i tc j] ixs
  show "array_read (mIndices self) (unat (i * 3 + word_of_nat j)) = Some (ixs ! (3 * unat i + j))"
    by (simp add: array_read_def)
  from all k show "ixs ! (3 * unat i + j) < mVertexCount self"
    by (simp add: list_all_length)
qed

lemma edge_length_eq:
  assumes wf: "well_formed_mesh self vs ixs"
    and p: "ix1 < mVertexCount self" and q: "ix2 < mVertexCount self"
  shows "edge_length (mVertices self) (unat (ix1 * 3)) (unat (ix2 * 3))
    = Some (distance (vertex_of vs ix2) (vertex_of vs ix1))"
proof -
  from wf have vc: "3 * unat (mVertexCount self) < 2 ^ 32"
    and len: "length vs = 3 * unat (mVertexCount self)" and vs: "mVertices self = Some vs"
    by (simp_all add: well_formed_mesh_def)
  from p q have "unat ix1 < unat (mVertexCount self)" "unat ix2 < unat (mVertexCount self)"
    by (simp_all add: word_less_nat_alt)
  with len have "unat ix1 * 3 + 2 < length vs" "unat ix2 * 3 + 2 < length vs"
    by simp_all
  then show ?thesis
    using vs unat_offset [OF p vc] unat_offset [OF q vc]
    by (simp add: edge_length_def array_read_def distance_def vertex_of_def)
qed

lemma edge_step_eq:
  assumes wf: "well_formed_mesh self vs ixs" and i: "i < mTriangleCount self" and j: "j < 3"
    and p: "ix1 < mVertexCount self"
  shows "edge_step self i (word_of_nat j) (a, unat (ix1 * 3), e)
    = Some (a + distance (vertex_of vs (ixs ! (3 * unat i + j))) (vertex_of vs ix1),
            unat (ixs ! (3 * unat i + j) * 3), e + 1)"
  using index_read [OF wf i j] edge_length_eq [OF wf p index_read(2) [OF wf i j]]
  by (simp add: edge_step_def)

lemma triangle_step:
  assumes wf: "well_formed_mesh self vs ixs" and i: "i < mTriangleCount self"
  shows "triangle_loop self i (a, e)
    = triangle_loop self (i + 1) (a + perimeter vs ixs (unat i), e + 3)"
proof -
  note r = index_read [OF wf i]
  have r2: "array_read (mIndices self) (unat (i * 3 + 2)) = Some (ixs ! (3 * unat i + 2))"
    using r(1) [of 2] by simp
  have s0: "edge_step self i 0 (a, unat (ixs ! (3 * unat i + 2) * 3), e)
    = Some (a + distance (vertex_of vs (ixs ! (3 * unat i))) (vertex_of vs (ixs ! (3 * unat i + 2))),
            unat (ixs ! (3 * unat i) * 3), e + 1)"
    using edge_step_eq [OF wf i, of 0 "ixs ! (3 * unat i + 2)" a e] r(2) [of 2] by simp
  have s1: "edge_step self i 1 (a', unat (ixs ! (3 * unat i) * 3), e')
    = Some (a' + distance (vertex_of vs (ixs ! (3 * unat i + 1))) (vertex_of vs (ixs ! (3 * unat i))),
            unat (ixs ! (3 * unat i + 1) * 3), e' + 1)" for a' e'
    using edge_step_eq [OF wf i, of 1 "ixs ! (3 * unat i)" a' e'] r(2) [of 0] by simp
  have s2: "edge_step self i 2 (a', unat (ixs ! (3 * unat i + 1) * 3), e')
    = Some (a' + distance (vertex_of vs (ixs ! (3 * unat i + 2))) (vertex_of vs (ixs ! (3 * unat i + 1))),
            unat (ixs ! (3 * unat i + 2) * 3), e' + 1)" for a' e'
    using edge_step_eq [OF wf i, of 2 "ixs ! (3 * unat i + 1)" a' e'] r(2) [of 1] by simp
  have body: "Option.bind (Option.bind
        (edge_step self i 0 (a, unat (ixs ! (3 * unat i + 2) * 3), e))
        (edge_step self i 1)) (edge_step self i 2)
      = Some (a + perimeter vs ixs (unat i), unat (ixs ! (3 * unat i + 2) * 3), e + 3)"
    unfolding s0 Option.bind.simps s1 s2
    by (simp add: perimeter_def Let_def add.assoc)
  have "triangle_loop self i (a, e)
      = (case Some (a + perimeter vs ixs (unat i), unat (ixs ! (3 * unat i + 2) * 3), e + 3) of
           None \<Rightarrow> None
         | Some (avgEdgeLength', p1, edgeCount') \<Rightarrow>
             triangle_loop self (i + 1) (avgEdgeLength', edgeCount'))"
    unfolding body [symmetric]
    by (subst triangle_loop.simps) (simp only: i if_True prod.case r2 option.case)
  then show ?thesis
    by simp
qed


lemma triangle_loop_sum:
  assumes wf: "well_formed_mesh self vs ixs"
  shows "i \<le> mTriangleCount self \<Longrightarrow>
     triangle_loop self i (a, e)
       = Some (a + (\<Sum>t = unat i..<unat (mTriangleCount self). perimeter vs ixs t),
               e + word_of_nat (3 * (unat (mTriangleCount self) - unat i)))"
proof (induction "unat (mTriangleCount self) - unat i" arbitrary: i a e)
  case 0
  then have "unat i = unat (mTriangleCount self)"
    by (simp add: word_le_nat_alt)
  then have "\<not> i < mTriangleCount self"
    by (simp add: word_less_nat_alt)
  then show ?case
    using \<open>unat i = unat (mTriangleCount self)\<close> by (subst triangle_loop.simps) simp
next
  case (Suc n)
  then have lt: "unat i < unat (mTriangleCount self)"
    by simp
  then have i: "i < mTriangleCount self"
    by (simp add: word_less_nat_alt)
  from lt have "unat i + unat (1 :: CTMuint) < 2 ^ LENGTH(32)"
    using unsigned_less [of "mTriangleCount self", where 'a = nat] by simp
  then have "unat (i + 1) = unat i + unat (1 :: CTMuint)"
    by (simp only: unat_add_lem)
  then have next_i: "unat (i + 1) = Suc (unat i)"
    by simp
  with Suc.hyps(2) lt have n: "n = unat (mTriangleCount self) - unat (i + 1)"
    and le: "i + 1 \<le> mTriangleCount self"
    by (simp_all add: word_le_nat_alt)
  have "triangle_loop self i (a, e)
      = triangle_loop self (i + 1) (a + perimeter vs ixs (unat i), e + 3)"
    by (rule triangle_step [OF wf i])
  also have "\<dots> = Some (a + perimeter vs ixs (unat i)
        + (\<Sum>t = unat (i + 1)..<unat (mTriangleCount self). perimeter vs ixs t),
      e + 3 + word_of_nat (3 * (unat (mTriangleCount self) - unat (i + 1))))"
    by (rule Suc.hyps(1) [OF n le])
  also have "a + perimeter vs ixs (unat i)
        + (\<Sum>t = unat (i + 1)..<unat (mTriangleCount self). perimeter vs ixs t)
      = a + (\<Sum>t = unat i..<unat (mTriangleCount self). perimeter vs ixs t)"
    using lt by (simp add: next_i sum.atLeast_Suc_lessThan)
  also have "e + 3 + word_of_nat (3 * (unat (mTriangleCount self) - unat (i + 1)))
      = e + word_of_nat (3 * (unat (mTriangleCount self) - unat i))"
  proof -
    from lt have "3 * (unat (mTriangleCount self) - unat i)
        = 3 + 3 * (unat (mTriangleCount self) - unat (i + 1))"
      by (simp add: next_i)
    then show ?thesis
      by (simp only: of_nat_add of_nat_numeral add.assoc)
  qed
  finally show ?case .
qed

lemma precision_rel_mean:
  assumes "mMode self = CTM_EXPORT" "0 < aRelPrecision" and wf: "well_formed_mesh self vs ixs"
    and "mTriangleCount self \<noteq> 0"
  shows "ctmVertexPrecisionRel (Some self) aRelPrecision
    = Some (Some (self\<lparr>mVertexPrecision := aRelPrecision
        * ((\<Sum>t < unat (mTriangleCount self). perimeter vs ixs t)
            / real (3 * unat (mTriangleCount self)))\<rparr>))"
proof -
  define ec :: CTMuint where "ec = word_of_nat (3 * unat (mTriangleCount self))"
  have loop: "triangle_loop self 0 (0, 0)
      = Some ((\<Sum>t < unat (mTriangleCount self). perimeter vs ixs t), ec)"
    unfolding ec_def using triangle_loop_sum [OF wf, of 0 0 0] by (simp add: atLeast0LessThan)
  from wf have bound: "3 * unat (mTriangleCount self) < 2 ^ 32"
    by (simp add: well_formed_mesh_def)
  then have count: "unat ec = 3 * unat (mTriangleCount self)"
    unfolding ec_def by (rule unat_word_of_nat)
  from assms(4) have "unat (mTriangleCount self) \<noteq> 0"
    by (simp add: unat_eq_0)
  with count have nz: "ec \<noteq> 0"
    by (metis mult_is_0 unat_0 zero_neq_numeral)
  show ?thesis
    using assms(1,2) nz by (simp add: ctmVertexPrecisionRel_def loop count)
qed

end
